theory Spec2Isabelle
  imports Main "HOL-Library.Word"
begin

section \<open>Python values, exceptions and the collaborators\<close>

text \<open>
  The daemon \<^verbatim>\<open>nemotron_daemon.py\<close> has three modes: \<^verbatim>\<open>check_gpu\<close>,
  \<^verbatim>\<open>download_model\<close> and \<^verbatim>\<open>run_server\<close>. Each one calls a collaborator library and
  prints single-line JSON objects on standard output.

  An exception is a value. Two classes are told apart because the source tells them apart:
  \<^verbatim>\<open>ImportError\<close> (with its subclasses) and every other subclass of \<^verbatim>\<open>Exception\<close>. The
  string is what \<^verbatim>\<open>str(e)\<close> returns. Signals below \<^verbatim>\<open>BaseException\<close> that are not
  exceptions (a keyboard interrupt) are not modelled.
\<close>

datatype exn = ImportError string | Exception string

fun str_exn :: "exn \<Rightarrow> string" where
  "str_exn (ImportError m) = m"
| "str_exn (Exception m) = m"

text \<open>
  What \<^verbatim>\<open>json.loads\<close> returns and what \<^verbatim>\<open>json.dumps\<close> is given: a Python \<^verbatim>\<open>dict\<close> is the
  list of its items, looked up with \<open>map_of\<close>; a float is its 64 bits. A character of a
  \<open>string\<close> stands for a code point below 256.
\<close>

datatype json =
    JNull
  | JBool bool
  | JInt int
  | JFloat "64 word"
  | JStr string
  | JArr "json list"
  | JObj "(string \<times> json) list"

text \<open>How a process run ends: the function returns, \<^verbatim>\<open>sys.exit\<close> is called, or an exception
  escapes every handler.\<close>

datatype outcome = Returned | SysExit int | Uncaught exn

text \<open>
  The collaborators are parameters. A collaborator that can raise returns a sum, \<open>Inl\<close> the
  exception. The three that are called once per request (the file system, the table of open
  descriptors and the model) take the index of the input line, so that their answer may
  change from one request to the next.
\<close>

record env =
  import_torch :: "exn option"
  cuda_is_available :: "exn + bool"
  cuda_get_device_name :: "exn + string"
  import_snapshot_download :: "exn option"
  snapshot_download :: "string \<Rightarrow> exn + string"
  import_nemo_asr :: "exn option"
  load_model :: "string \<Rightarrow> string \<Rightarrow> exn option"
  json_loads :: "string \<Rightarrow> exn + json"
  file_exists :: "nat \<Rightarrow> string \<Rightarrow> bool"
  fd_exists :: "nat \<Rightarrow> int \<Rightarrow> exn + bool"
  model_transcribe :: "nat \<Rightarrow> json \<Rightarrow> exn + string list"

section \<open>check-gpu\<close>

text \<open>
  \<^verbatim>\<open>
  def check_gpu():
      try:
          import torch
          available = torch.cuda.is_available()
          device_name = torch.cuda.get_device_name(0) if available else None
          print(json.dumps({"available": available, "device": device_name}))
      except ImportError:
          print(json.dumps({"available": False, "error": "torch not installed"}))
      except Exception as e:
          print(json.dumps({"available": False, "error": str(e)}))
  \<close>
  The body of the \<^verbatim>\<open>try\<close> prints nothing before its last statement, so it either raises
  or yields the one object it prints.
\<close>

definition check_gpu_try :: "env \<Rightarrow> exn + json" where
  "check_gpu_try env =
     (case import_torch env of
        Some e \<Rightarrow> Inl e
      | None \<Rightarrow>
          (case cuda_is_available env of
             Inl e \<Rightarrow> Inl e
           | Inr available \<Rightarrow>
               (case (if available
                      then (case cuda_get_device_name env of
                              Inl e \<Rightarrow> Inl e | Inr d \<Rightarrow> Inr (JStr d))
                      else Inr JNull) of
                  Inl e \<Rightarrow> Inl e
                | Inr device_name \<Rightarrow>
                    Inr (JObj [(''available'', JBool available),
                               (''device'', device_name)]))))"

definition check_gpu :: "env \<Rightarrow> json list \<times> outcome" where
  "check_gpu env =
     (case check_gpu_try env of
        Inr obj \<Rightarrow> ([obj], Returned)
      | Inl (ImportError m) \<Rightarrow>
          ([JObj [(''available'', JBool False), (''error'', JStr ''torch not installed'')]],
           Returned)
      | Inl (Exception m) \<Rightarrow>
          ([JObj [(''available'', JBool False), (''error'', JStr m)]], Returned))"

section \<open>download\<close>

text \<open>
  \<^verbatim>\<open>
  def download_model(model_name):
      try:
          from huggingface_hub import snapshot_download
          print(json.dumps({"status": "starting", "model": model_name}))
          path = snapshot_download(repo_id=model_name)
          print(json.dumps({"status": "complete", "path": path}))
      except Exception as e:
          print(json.dumps({"status": "error", "message": str(e)}))
  \<close>
  Here the body prints before it can raise, so it yields what it has printed together with
  the exception, if any.
\<close>

definition download_try :: "env \<Rightarrow> string \<Rightarrow> json list \<times> exn option" where
  "download_try env model_name =
     (case import_snapshot_download env of
        Some e \<Rightarrow> ([], Some e)
      | None \<Rightarrow>
          (let starting = JObj [(''status'', JStr ''starting''), (''model'', JStr model_name)]
           in case snapshot_download env model_name of
                Inl e \<Rightarrow> ([starting], Some e)
              | Inr path \<Rightarrow>
                  ([starting, JObj [(''status'', JStr ''complete''), (''path'', JStr path)]],
                   None)))"

definition download_model :: "env \<Rightarrow> string \<Rightarrow> json list \<times> outcome" where
  "download_model env model_name =
     (case download_try env model_name of
        (out, None) \<Rightarrow> (out, Returned)
      | (out, Some e) \<Rightarrow>
          (out @ [JObj [(''status'', JStr ''error''), (''message'', JStr (str_exn e))]],
           Returned))"

section \<open>server\<close>

subsection \<open>The library calls of the request loop\<close>

text \<open>\<^verbatim>\<open>str.isspace\<close> on the code points below 256, and \<^verbatim>\<open>str.strip()\<close>, which removes
  such characters from both ends.\<close>

definition py_isspace :: "char \<Rightarrow> bool" where
  "py_isspace c =
     ((of_char c :: nat) \<in> {0x09, 0x0A, 0x0B, 0x0C, 0x0D, 0x1C, 0x1D, 0x1E, 0x1F, 0x20, 0x85, 0xA0})"

definition py_strip :: "string \<Rightarrow> string" where
  "py_strip s = rev (dropWhile py_isspace (rev (dropWhile py_isspace s)))"

fun py_type_name :: "json \<Rightarrow> string" where
  "py_type_name JNull = ''NoneType''"
| "py_type_name (JBool b) = ''bool''"
| "py_type_name (JInt n) = ''int''"
| "py_type_name (JFloat w) = ''float''"
| "py_type_name (JStr s) = ''str''"
| "py_type_name (JArr xs) = ''list''"
| "py_type_name (JObj kvs) = ''dict''"

text \<open>\<^verbatim>\<open>req.get(key)\<close>: a dict answers with the value or \<^verbatim>\<open>None\<close>; any other value has no
  attribute \<^verbatim>\<open>get\<close>, and the attribute lookup raises \<^verbatim>\<open>AttributeError\<close>.\<close>

definition quoted :: "string \<Rightarrow> string" where
  "quoted s = CHR 0x27 # s @ [CHR 0x27]"

fun py_get :: "json \<Rightarrow> string \<Rightarrow> exn + json" where
  "py_get (JObj kvs) key = Inr (case map_of kvs key of None \<Rightarrow> JNull | Some v \<Rightarrow> v)"
| "py_get v key =
     Inl (Exception (quoted (py_type_name v) @ '' object has no attribute '' @ quoted ''get''))"

text \<open>\<^verbatim>\<open>os.path.exists(path)\<close> calls \<^verbatim>\<open>os.stat\<close> and answers \<^verbatim>\<open>False\<close> when that raises
  \<^verbatim>\<open>OSError\<close> or \<^verbatim>\<open>ValueError\<close>. A string is a path; an integer (a \<^verbatim>\<open>bool\<close> is one) is an
  open file descriptor, whose conversion can raise; anything else is a \<^verbatim>\<open>TypeError\<close>,
  which is not caught there.\<close>

fun os_path_exists :: "env \<Rightarrow> nat \<Rightarrow> json \<Rightarrow> exn + bool" where
  "os_path_exists env i (JStr p) = Inr (file_exists env i p)"
| "os_path_exists env i (JInt n) = fd_exists env i n"
| "os_path_exists env i (JBool b) = fd_exists env i (if b then 1 else 0)"
| "os_path_exists env i v =
     Inl (Exception (''stat: path should be string, bytes, os.PathLike or integer, not ''
                     @ py_type_name v))"

subsection \<open>One request\<close>

text \<open>
  \<^verbatim>\<open>
  class NemotronService:
      def transcribe(self, file_path):
          transcriptions = self.model.transcribe([file_path])
          return transcriptions[0] if transcriptions else ""
  \<close>
\<close>

definition transcribe :: "env \<Rightarrow> nat \<Rightarrow> json \<Rightarrow> exn + string" where
  "transcribe env i file_path =
     (case model_transcribe env i file_path of
        Inl e \<Rightarrow> Inl e
      | Inr transcriptions \<Rightarrow>
          Inr (case transcriptions of [] \<Rightarrow> [] | t # ts \<Rightarrow> t))"

text \<open>What one pass through the loop body leaves behind: the objects printed, the
  arguments the model was called with, and how the pass ended.\<close>

datatype ctl = Next | Break | Raised exn

record effect =
  printed :: "json list"
  invoked :: "json list"
  ended :: ctl

text \<open>
  The body of the inner \<^verbatim>\<open>try\<close>:
  \<^verbatim>\<open>
  req = json.loads(line)
  command = req.get("command")
  if command == "transcribe":
      file_path = req.get("file_path")
      req_id = req.get("id")
      if not os.path.exists(file_path):
          print(json.dumps({"type": "error", "message": "File not found", "id": req_id}), flush=True)
          continue
      text = service.transcribe(file_path)
      print(json.dumps({"type": "result", "text": text, "file_path": file_path, "id": req_id}), flush=True)
  elif command == "ping":
      print(json.dumps({"type": "pong"}), flush=True)
  elif command == "exit":
      break
  \<close>
\<close>

definition file_not_found :: "json \<Rightarrow> json" where
  "file_not_found req_id =
     JObj [(''type'', JStr ''error''), (''message'', JStr ''File not found''), (''id'', req_id)]"

definition handle_transcribe :: "env \<Rightarrow> nat \<Rightarrow> json \<Rightarrow> effect" where
  "handle_transcribe env i req =
     (case py_get req ''file_path'' of
        Inl e \<Rightarrow> \<lparr>printed = [], invoked = [], ended = Raised e\<rparr>
      | Inr file_path \<Rightarrow>
     (case py_get req ''id'' of
        Inl e \<Rightarrow> \<lparr>printed = [], invoked = [], ended = Raised e\<rparr>
      | Inr req_id \<Rightarrow>
     (case os_path_exists env i file_path of
        Inl e \<Rightarrow> \<lparr>printed = [], invoked = [], ended = Raised e\<rparr>
      | Inr False \<Rightarrow> \<lparr>printed = [file_not_found req_id], invoked = [], ended = Next\<rparr>
      | Inr True \<Rightarrow>
     (case transcribe env i file_path of
        Inl e \<Rightarrow> \<lparr>printed = [], invoked = [file_path], ended = Raised e\<rparr>
      | Inr text \<Rightarrow>
          \<lparr>printed = [JObj [(''type'', JStr ''result''), (''text'', JStr text),
                             (''file_path'', file_path), (''id'', req_id)]],
           invoked = [file_path], ended = Next\<rparr>))))"

definition handle_request :: "env \<Rightarrow> nat \<Rightarrow> string \<Rightarrow> effect" where
  "handle_request env i line =
     (case json_loads env line of
        Inl e \<Rightarrow> \<lparr>printed = [], invoked = [], ended = Raised e\<rparr>
      | Inr req \<Rightarrow>
     (case py_get req ''command'' of
        Inl e \<Rightarrow> \<lparr>printed = [], invoked = [], ended = Raised e\<rparr>
      | Inr command \<Rightarrow>
          if command = JStr ''transcribe'' then handle_transcribe env i req
          else if command = JStr ''ping''
          then \<lparr>printed = [JObj [(''type'', JStr ''pong'')]], invoked = [], ended = Next\<rparr>
          else if command = JStr ''exit''
          then \<lparr>printed = [], invoked = [], ended = Break\<rparr>
          else \<lparr>printed = [], invoked = [], ended = Next\<rparr>))"

text \<open>
  The whole loop body: the blank-line guard, the \<^verbatim>\<open>try\<close> and its handler.
  \<^verbatim>\<open>
  if not line.strip(): continue
  try:
      ...
  except Exception as e:
      print(json.dumps({"type": "error", "message": str(e)}), flush=True)
  \<close>
  The handler is the last statement of the body, so the loop goes on after it.
\<close>

definition error_response :: "exn \<Rightarrow> json" where
  "error_response e = JObj [(''type'', JStr ''error''), (''message'', JStr (str_exn e))]"

definition handle_line :: "env \<Rightarrow> nat \<Rightarrow> string \<Rightarrow> effect" where
  "handle_line env i line =
     (if py_strip line = [] then \<lparr>printed = [], invoked = [], ended = Next\<rparr>
      else let r = handle_request env i line
           in case ended r of
                Raised e \<Rightarrow> r\<lparr>printed := printed r @ [error_response e], ended := Next\<rparr>
              | _ \<Rightarrow> r)"

subsection \<open>The loop and the server\<close>

text \<open>
  Standard input is the list of what each read yields: a line, or the exception the read
  raises (the text stream cannot decode the bytes, say). \<^verbatim>\<open>for line in sys.stdin\<close> ends
  when the input does, at \<^verbatim>\<open>break\<close>, or when a read raises; the exception of a read is
  outside the inner \<^verbatim>\<open>try\<close> and reaches the outer handler.
\<close>

datatype loop_end = EndOfInput | ExitCommand | ReadFailed exn

record loop_run =
  emitted :: "json list"
  transcribed :: "json list"
  reads :: nat
  stopped :: loop_end

fun server_loop :: "env \<Rightarrow> nat \<Rightarrow> (exn + string) list \<Rightarrow> loop_run" where
  "server_loop env i [] =
     \<lparr>emitted = [], transcribed = [], reads = 0, stopped = EndOfInput\<rparr>"
| "server_loop env i (Inl e # rest) =
     \<lparr>emitted = [], transcribed = [], reads = 1, stopped = ReadFailed e\<rparr>"
| "server_loop env i (Inr line # rest) =
     (let r = handle_line env i line
      in if ended r = Break
         then \<lparr>emitted = printed r, transcribed = invoked r, reads = 1, stopped = ExitCommand\<rparr>
         else let l = server_loop env (Suc i) rest
              in \<lparr>emitted = printed r @ emitted l, transcribed = invoked r @ transcribed l,
                  reads = Suc (reads l), stopped = stopped l\<rparr>)"

text \<open>
  \<^verbatim>\<open>
  def run_server(model_name):
      try:
          import torch
          import nemo.collections.asr as nemo_asr
      except ImportError:
          print(json.dumps({"type": "error", "message": "NeMo/Torch not installed"}), flush=True)
          sys.exit(1)
      ...
      try:
          service = NemotronService()
          print(json.dumps({"type": "status", "status": "ready", "device": service.device}), flush=True)
          for line in sys.stdin: ...
      except Exception as e:
          print(json.dumps({"type": "fatal", "message": str(e)}), flush=True)
  \<close>
  The constructor of the service asks for the device and loads the model:
  \<^verbatim>\<open>
  self.device = "cuda" if torch.cuda.is_available() else "cpu"
  self.model = nemo_asr.models.ASRModel.from_pretrained(model_name)
  self.model.freeze()
  self.model.to(self.device)
  \<close>
\<close>

definition server_imports :: "env \<Rightarrow> exn option" where
  "server_imports env =
     (case import_torch env of Some e \<Rightarrow> Some e | None \<Rightarrow> import_nemo_asr env)"

definition NemotronService :: "env \<Rightarrow> string \<Rightarrow> exn + string" where
  "NemotronService env model_name =
     (case cuda_is_available env of
        Inl e \<Rightarrow> Inl e
      | Inr available \<Rightarrow>
          (let device = (if available then ''cuda'' else ''cpu'')
           in case load_model env model_name device of
                Some e \<Rightarrow> Inl e
              | None \<Rightarrow> Inr device))"

definition fatal_response :: "exn \<Rightarrow> json" where
  "fatal_response e = JObj [(''type'', JStr ''fatal''), (''message'', JStr (str_exn e))]"

definition ready_status :: "string \<Rightarrow> json" where
  "ready_status device =
     JObj [(''type'', JStr ''status''), (''status'', JStr ''ready''), (''device'', JStr device)]"

record server_run =
  stdout :: "json list"
  model_calls :: "json list"
  lines_read :: nat
  finished :: outcome

definition run_server :: "env \<Rightarrow> string \<Rightarrow> (exn + string) list \<Rightarrow> server_run" where
  "run_server env model_name stdin =
     (case server_imports env of
        Some (ImportError m) \<Rightarrow>
          \<lparr>stdout = [JObj [(''type'', JStr ''error''),
                           (''message'', JStr ''NeMo/Torch not installed'')]],
           model_calls = [], lines_read = 0, finished = SysExit 1\<rparr>
      | Some (Exception m) \<Rightarrow>
          \<lparr>stdout = [], model_calls = [], lines_read = 0, finished = Uncaught (Exception m)\<rparr>
      | None \<Rightarrow>
          (case NemotronService env model_name of
             Inl e \<Rightarrow>
               \<lparr>stdout = [fatal_response e], model_calls = [], lines_read = 0,
                finished = Returned\<rparr>
           | Inr device \<Rightarrow>
               (let l = server_loop env 0 stdin
                in \<lparr>stdout = ready_status device # emitted l @
                             (case stopped l of ReadFailed e \<Rightarrow> [fatal_response e] | _ \<Rightarrow> []),
                    model_calls = transcribed l, lines_read = reads l,
                    finished = Returned\<rparr>)))"

subsection \<open>The server as a trace of reads and writes\<close>

text \<open>
  The same loop, observed as the sequence of its reads and writes. A read is the iterator
  of \<^verbatim>\<open>sys.stdin\<close> handing the loop its next line, raising, or ending; a write is one
  \<^verbatim>\<open>print(json.dumps(...), flush=True)\<close>. The body of the loop runs between two reads, so
  the events of one line are its read and then what the body prints for it.
\<close>

datatype event = ReadLine string | ReadRaised exn | ReadEnd | Write json

fun is_read :: "event \<Rightarrow> bool" where
  "is_read (Write obj) = False"
| "is_read e = True"

text \<open>What a trace has written, and how many items of the input it has read.\<close>

fun writes :: "event list \<Rightarrow> json list" where
  "writes [] = []"
| "writes (Write obj # es) = obj # writes es"
| "writes (e # es) = writes es"

fun line_reads :: "event list \<Rightarrow> nat" where
  "line_reads [] = 0"
| "line_reads (ReadLine line # es) = Suc (line_reads es)"
| "line_reads (ReadRaised e # es) = Suc (line_reads es)"
| "line_reads (e # es) = line_reads es"

text \<open>\<^verbatim>\<open>for line in sys.stdin: ...\<close>, and \<^verbatim>\<open>run_server\<close> around it, as traces.\<close>

fun server_loop_events :: "env \<Rightarrow> nat \<Rightarrow> (exn + string) list \<Rightarrow> event list" where
  "server_loop_events env i [] = [ReadEnd]"
| "server_loop_events env i (Inl e # rest) = [ReadRaised e]"
| "server_loop_events env i (Inr line # rest) =
     (let r = handle_line env i line
      in ReadLine line # map Write (printed r) @
         (if ended r = Break then [] else server_loop_events env (Suc i) rest))"

definition run_server_events :: "env \<Rightarrow> string \<Rightarrow> (exn + string) list \<Rightarrow> event list" where
  "run_server_events env model_name stdin =
     (case server_imports env of
        Some (ImportError m) \<Rightarrow>
          [Write (JObj [(''type'', JStr ''error''),
                        (''message'', JStr ''NeMo/Torch not installed'')])]
      | Some (Exception m) \<Rightarrow> []
      | None \<Rightarrow>
          (case NemotronService env model_name of
             Inl e \<Rightarrow> [Write (fatal_response e)]
           | Inr device \<Rightarrow>
               Write (ready_status device) # server_loop_events env 0 stdin @
               (case stopped (server_loop env 0 stdin) of
                  ReadFailed e \<Rightarrow> [Write (fatal_response e)] | _ \<Rightarrow> [])))"

text \<open>Each read of a trace, paired with what is written after it and before the next
  read.\<close>

definition written_before_next_read :: "event list \<Rightarrow> json list" where
  "written_before_next_read es = writes (takeWhile (\<lambda>e. \<not> is_read e) es)"

fun answers :: "event list \<Rightarrow> (event \<times> json list) list" where
  "answers [] = []"
| "answers (e # es) =
     (if is_read e then (e, written_before_next_read es) # answers es else answers es)"

section \<open>A concrete environment\<close>

text \<open>
  One machine and a handful of input lines, on which the general statements below are
  instantiated: a GPU is present, every library is installed, \<^verbatim>\<open>a.wav\<close> and
  \<^verbatim>\<open>noise.wav\<close> exist, and the model fails on \<^verbatim>\<open>noise.wav\<close>. \<open>example_loads\<close> is
  \<^verbatim>\<open>json.loads\<close> on these lines.
\<close>

definition dq :: "string \<Rightarrow> string" where
  "dq s = CHR 0x22 # s @ [CHR 0x22]"

definition ping_line :: string where
  "ping_line = ''{'' @ dq ''command'' @ '': '' @ dq ''ping'' @ ''}'' @ [CHR 0x0A]"

definition exit_line :: string where
  "exit_line = ''{'' @ dq ''command'' @ '': '' @ dq ''exit'' @ ''}'' @ [CHR 0x0A]"

definition reload_line :: string where
  "reload_line = ''{'' @ dq ''command'' @ '': '' @ dq ''reload'' @ ''}'' @ [CHR 0x0A]"

definition empty_object_line :: string where
  "empty_object_line = ''{}'' @ [CHR 0x0A]"

definition array_line :: string where
  "array_line = ''[]'' @ [CHR 0x0A]"

definition blank_line :: string where
  "blank_line = ''  '' @ [CHR 0x0A]"

definition garbage_line :: string where
  "garbage_line = ''not json'' @ [CHR 0x0A]"

definition good_line :: string where
  "good_line = ''{'' @ dq ''command'' @ '': '' @ dq ''transcribe'' @ '', '' @ dq ''file_path''
                 @ '': '' @ dq ''a.wav'' @ '', '' @ dq ''id'' @ '': 8}'' @ [CHR 0x0A]"

definition gone_line :: string where
  "gone_line = ''{'' @ dq ''command'' @ '': '' @ dq ''transcribe'' @ '', '' @ dq ''file_path''
                 @ '': '' @ dq ''gone.wav'' @ '', '' @ dq ''id'' @ '': 7}'' @ [CHR 0x0A]"

definition noise_line :: string where
  "noise_line = ''{'' @ dq ''command'' @ '': '' @ dq ''transcribe'' @ '', '' @ dq ''file_path''
                 @ '': '' @ dq ''noise.wav'' @ '', '' @ dq ''id'' @ '': 9}'' @ [CHR 0x0A]"

definition no_path_line :: string where
  "no_path_line = ''{'' @ dq ''command'' @ '': '' @ dq ''transcribe'' @ '', '' @ dq ''id''
                 @ '': 7}'' @ [CHR 0x0A]"

definition example_loads :: "string \<Rightarrow> exn + json" where
  "example_loads line =
     (if line = ping_line then Inr (JObj [(''command'', JStr ''ping'')])
      else if line = exit_line then Inr (JObj [(''command'', JStr ''exit'')])
      else if line = reload_line then Inr (JObj [(''command'', JStr ''reload'')])
      else if line = empty_object_line then Inr (JObj [])
      else if line = array_line then Inr (JArr [])
      else if line = good_line
      then Inr (JObj [(''command'', JStr ''transcribe''), (''file_path'', JStr ''a.wav''),
                      (''id'', JInt 8)])
      else if line = gone_line
      then Inr (JObj [(''command'', JStr ''transcribe''), (''file_path'', JStr ''gone.wav''),
                      (''id'', JInt 7)])
      else if line = noise_line
      then Inr (JObj [(''command'', JStr ''transcribe''), (''file_path'', JStr ''noise.wav''),
                      (''id'', JInt 9)])
      else if line = no_path_line
      then Inr (JObj [(''command'', JStr ''transcribe''), (''id'', JInt 7)])
      else Inl (Exception ''Expecting value: line 1 column 1 (char 0)''))"

definition example_env :: env where
  "example_env =
     \<lparr>import_torch = None,
      cuda_is_available = Inr True,
      cuda_get_device_name = Inr ''NVIDIA RTX'',
      import_snapshot_download = None,
      snapshot_download = (\<lambda>repo. Inr (''/cache/'' @ repo)),
      import_nemo_asr = None,
      load_model = (\<lambda>model_name device. None),
      json_loads = example_loads,
      file_exists = (\<lambda>i p. p = ''a.wav'' \<or> p = ''noise.wav''),
      fd_exists = (\<lambda>i n. Inr (0 \<le> n \<and> n \<le> 2)),
      model_transcribe =
        (\<lambda>i p. if p = JStr ''noise.wav'' then Inl (Exception ''decoder failed'')
               else Inr [''hello world''])\<rparr>"

text \<open>The same machine without a GPU, without the libraries, and with a hub that cannot
  be reached.\<close>

definition cpu_env :: env where
  "cpu_env = example_env\<lparr>cuda_is_available := Inr False\<rparr>"

definition bare_env :: env where
  "bare_env =
     example_env\<lparr>import_torch := Some (ImportError ''No module named torch''),
                 import_snapshot_download := Some (ImportError ''No module named huggingface_hub'')\<rparr>"

definition offline_env :: env where
  "offline_env = example_env\<lparr>snapshot_download := (\<lambda>repo. Inl (Exception ''connection refused''))\<rparr>"

text \<open>The value of the \<^verbatim>\<open>type\<close> field of a printed object, when it is a string.\<close>

definition response_type :: "json \<Rightarrow> string option" where
  "response_type obj =
     (case obj of
        JObj kvs \<Rightarrow> (case map_of kvs ''type'' of Some (JStr t) \<Rightarrow> Some t | _ \<Rightarrow> None)
      | _ \<Rightarrow> None)"

text \<open>The keys of a printed object, in the order it was built.\<close>

definition keys_of :: "json \<Rightarrow> string list" where
  "keys_of obj = (case obj of JObj kvs \<Rightarrow> map fst kvs | _ \<Rightarrow> [])"

section \<open>The three modes, verified\<close>

subsection \<open>check-gpu and download\<close>

text \<open>
  C4. \<^verbatim>\<open>check_gpu\<close> always prints exactly one JSON object and returns, whatever the
  collaborator does: with \<^verbatim>\<open>torch\<close> importable and no exception it reports the availability
  and the device name (\<^verbatim>\<open>null\<close> when no GPU is available); when \<^verbatim>\<open>torch\<close> is absent, or
  any call raises, it reports \<^verbatim>\<open>available: false\<close> and an \<^verbatim>\<open>error\<close> field instead.
\<close>

theorem check_gpu_one_object:
  "(\<exists>kvs. check_gpu env = ([JObj kvs], Returned)) \<and>
   (import_torch env = None \<and> cuda_is_available env = Inr True \<and>
      cuda_get_device_name env = Inr d \<longrightarrow>
    check_gpu env = ([JObj [(''available'', JBool True), (''device'', JStr d)]], Returned)) \<and>
   (import_torch env = None \<and> cuda_is_available env = Inr False \<longrightarrow>
    check_gpu env = ([JObj [(''available'', JBool False), (''device'', JNull)]], Returned)) \<and>
   (import_torch env = Some (ImportError m) \<longrightarrow>
    check_gpu env =
      ([JObj [(''available'', JBool False), (''error'', JStr ''torch not installed'')]],
       Returned)) \<and>
   (import_torch env = Some e \<or> cuda_is_available env = Inl e \<or>
      cuda_is_available env = Inr True \<and> cuda_get_device_name env = Inl e \<longrightarrow>
    (\<exists>msg. check_gpu env =
      ([JObj [(''available'', JBool False), (''error'', JStr msg)]], Returned)))"
proof -
  have one: "\<exists>kvs. check_gpu env = ([JObj kvs], Returned)"
    by (simp add: check_gpu_def check_gpu_try_def split: option.splits sum.splits exn.splits)
  have gpu: "check_gpu env = ([JObj [(''available'', JBool True), (''device'', JStr d)]], Returned)"
    if "import_torch env = None \<and> cuda_is_available env = Inr True \<and>
        cuda_get_device_name env = Inr d"
    using that by (simp add: check_gpu_def check_gpu_try_def)
  have cpu: "check_gpu env = ([JObj [(''available'', JBool False), (''device'', JNull)]], Returned)"
    if "import_torch env = None \<and> cuda_is_available env = Inr False"
    using that by (simp add: check_gpu_def check_gpu_try_def)
  have absent: "check_gpu env =
      ([JObj [(''available'', JBool False), (''error'', JStr ''torch not installed'')]], Returned)"
    if "import_torch env = Some (ImportError m)"
    using that by (simp add: check_gpu_def check_gpu_try_def)
  have failed: "\<exists>msg. check_gpu env =
      ([JObj [(''available'', JBool False), (''error'', JStr msg)]], Returned)"
    if "import_torch env = Some e \<or> cuda_is_available env = Inl e \<or>
        cuda_is_available env = Inr True \<and> cuda_get_device_name env = Inl e"
    using that
    by (auto simp add: check_gpu_def check_gpu_try_def split: option.splits exn.splits)
  from one gpu cpu absent failed show ?thesis by blast
qed

theorem check_gpu_one_object_witness:
  "check_gpu example_env =
     ([JObj [(''available'', JBool True), (''device'', JStr ''NVIDIA RTX'')]], Returned) \<and>
   check_gpu cpu_env = ([JObj [(''available'', JBool False), (''device'', JNull)]], Returned) \<and>
   check_gpu bare_env =
     ([JObj [(''available'', JBool False), (''error'', JStr ''torch not installed'')]], Returned)"
proof -
  have a: "import_torch example_env = None \<and> cuda_is_available example_env = Inr True \<and>
           cuda_get_device_name example_env = Inr ''NVIDIA RTX''"
    by (simp add: example_env_def)
  have b: "import_torch cpu_env = None \<and> cuda_is_available cpu_env = Inr False"
    by (simp add: cpu_env_def example_env_def)
  have c: "import_torch bare_env = Some (ImportError ''No module named torch'')"
    by (simp add: bare_env_def example_env_def)
  from a b c
    check_gpu_one_object [of example_env "''NVIDIA RTX''"]
    check_gpu_one_object [of cpu_env]
    check_gpu_one_object [of bare_env _ "''No module named torch''"]
  show ?thesis by blast
qed

text \<open>
  C5, as stated, fails: the import of the fetch routine is the first statement of the
  \<^verbatim>\<open>try\<close>, before the starting line is printed. When it raises, the error line is the
  only line.
\<close>

theorem download_starting_first_counterexample:
  "import_snapshot_download bare_env = Some (ImportError ''No module named huggingface_hub'') \<and>
   download_model bare_env ''nvidia/parakeet'' =
     ([JObj [(''status'', JStr ''error''),
             (''message'', JStr ''No module named huggingface_hub'')]], Returned) \<and>
   hd (fst (download_model bare_env ''nvidia/parakeet'')) \<noteq>
     JObj [(''status'', JStr ''starting''), (''model'', JStr ''nvidia/parakeet'')]"
  by (simp add: download_model_def download_try_def bare_env_def example_env_def)

text \<open>
  C5, amended. When the fetch routine can be imported, \<^verbatim>\<open>download_model\<close> first prints the
  starting line naming the model, then the complete line with the path if the fetch
  succeeds, or the error line with the message if the fetch raises. When the import itself
  raises, the error line with its message is the only line printed. No exception
  propagates in any case.
\<close>

theorem download_lines:
  "(import_snapshot_download env = None \<and> snapshot_download env model_name = Inr path \<longrightarrow>
    download_model env model_name =
      ([JObj [(''status'', JStr ''starting''), (''model'', JStr model_name)],
        JObj [(''status'', JStr ''complete''), (''path'', JStr path)]], Returned)) \<and>
   (import_snapshot_download env = None \<and> snapshot_download env model_name = Inl e \<longrightarrow>
    download_model env model_name =
      ([JObj [(''status'', JStr ''starting''), (''model'', JStr model_name)],
        JObj [(''status'', JStr ''error''), (''message'', JStr (str_exn e))]], Returned)) \<and>
   (import_snapshot_download env = Some e \<longrightarrow>
    download_model env model_name =
      ([JObj [(''status'', JStr ''error''), (''message'', JStr (str_exn e))]], Returned)) \<and>
   snd (download_model env model_name) = Returned"
  by (simp add: download_model_def download_try_def Let_def split: option.splits sum.splits)

theorem download_lines_witness:
  "download_model example_env ''nvidia/parakeet'' =
     ([JObj [(''status'', JStr ''starting''), (''model'', JStr ''nvidia/parakeet'')],
       JObj [(''status'', JStr ''complete''), (''path'', JStr ''/cache/nvidia/parakeet'')]],
      Returned) \<and>
   download_model offline_env ''nvidia/parakeet'' =
     ([JObj [(''status'', JStr ''starting''), (''model'', JStr ''nvidia/parakeet'')],
       JObj [(''status'', JStr ''error''), (''message'', JStr ''connection refused'')]],
      Returned) \<and>
   download_model bare_env ''nvidia/parakeet'' =
     ([JObj [(''status'', JStr ''error''),
             (''message'', JStr ''No module named huggingface_hub'')]], Returned)"
proof -
  have a: "import_snapshot_download example_env = None \<and>
           snapshot_download example_env ''nvidia/parakeet'' = Inr ''/cache/nvidia/parakeet''"
    by (simp add: example_env_def)
  have b: "import_snapshot_download offline_env = None \<and>
           snapshot_download offline_env ''nvidia/parakeet'' = Inl (Exception ''connection refused'')"
    by (simp add: offline_env_def example_env_def)
  have c: "import_snapshot_download bare_env =
           Some (ImportError ''No module named huggingface_hub'')"
    by (simp add: bare_env_def example_env_def)
  from a b c
    download_lines [of example_env "''nvidia/parakeet''" "''/cache/nvidia/parakeet''"]
    download_lines [of offline_env "''nvidia/parakeet''" _ "Exception ''connection refused''"]
    download_lines [of bare_env "''nvidia/parakeet''" _ "ImportError ''No module named huggingface_hub''"]
  show ?thesis by simp
qed

subsection \<open>The request loop: auxiliary facts\<close>

lemma handle_transcribe_shape:
  "ended (handle_transcribe env i req) \<noteq> Break \<and>
   (ended (handle_transcribe env i req) = Raised e \<longrightarrow>
      printed (handle_transcribe env i req) = []) \<and>
   (ended (handle_transcribe env i req) = Next \<longrightarrow>
      length (printed (handle_transcribe env i req)) = 1)"
  by (simp add: handle_transcribe_def split: sum.split bool.split)

lemma handle_transcribe_not_break: "ended (handle_transcribe env i req) \<noteq> Break"
  using handle_transcribe_shape by blast

lemma handle_transcribe_raised:
  "ended (handle_transcribe env i req) = Raised e \<Longrightarrow> printed (handle_transcribe env i req) = []"
  using handle_transcribe_shape by blast

lemma handle_transcribe_next:
  "ended (handle_transcribe env i req) = Next \<Longrightarrow>
   length (printed (handle_transcribe env i req)) = 1"
  using handle_transcribe_shape by blast

lemma handle_request_shape:
  "(ended (handle_request env i line) = Raised e \<longrightarrow>
      printed (handle_request env i line) = []) \<and>
   (ended (handle_request env i line) = Break \<longrightarrow>
      (\<exists>req. json_loads env line = Inr req \<and> py_get req ''command'' = Inr (JStr ''exit'')))"
  by (simp add: handle_request_def handle_transcribe_raised handle_transcribe_not_break
           split: sum.split)

lemma handle_request_raised:
  "ended (handle_request env i line) = Raised e \<Longrightarrow> printed (handle_request env i line) = []"
  using handle_request_shape by blast

lemma handle_request_break:
  "ended (handle_request env i line) = Break \<Longrightarrow>
   \<exists>req. json_loads env line = Inr req \<and> py_get req ''command'' = Inr (JStr ''exit'')"
  using handle_request_shape by blast

lemma handle_line_blank:
  "py_strip line = [] \<Longrightarrow> handle_line env i line = \<lparr>printed = [], invoked = [], ended = Next\<rparr>"
  by (simp add: handle_line_def)

lemma handle_line_raised:
  "py_strip line \<noteq> [] \<Longrightarrow> ended (handle_request env i line) = Raised e \<Longrightarrow>
   handle_line env i line =
     \<lparr>printed = [error_response e], invoked = invoked (handle_request env i line), ended = Next\<rparr>"
  by (simp add: handle_line_def Let_def handle_request_raised)

lemma handle_line_passed:
  "py_strip line \<noteq> [] \<Longrightarrow> ended (handle_request env i line) = Next \<or>
     ended (handle_request env i line) = Break \<Longrightarrow>
   handle_line env i line = handle_request env i line"
  by (auto simp add: handle_line_def Let_def)

lemma handle_line_break:
  "ended (handle_line env i line) = Break \<Longrightarrow>
   py_strip line \<noteq> [] \<and>
   (\<exists>req. json_loads env line = Inr req \<and> py_get req ''command'' = Inr (JStr ''exit''))"
  by (auto simp add: handle_line_def Let_def split: if_splits ctl.splits
           dest: handle_request_break)

lemma server_loop_next:
  "ended (handle_line env i line) \<noteq> Break \<Longrightarrow>
   server_loop env i (Inr line # rest) =
     \<lparr>emitted = printed (handle_line env i line) @ emitted (server_loop env (Suc i) rest),
      transcribed = invoked (handle_line env i line) @ transcribed (server_loop env (Suc i) rest),
      reads = Suc (reads (server_loop env (Suc i) rest)),
      stopped = stopped (server_loop env (Suc i) rest)\<rparr>"
  by (simp add: Let_def)

lemma server_loop_break:
  "ended (handle_line env i line) = Break \<Longrightarrow>
   server_loop env i (Inr line # rest) =
     \<lparr>emitted = printed (handle_line env i line),
      transcribed = invoked (handle_line env i line),
      reads = 1, stopped = ExitCommand\<rparr>"
  by (simp add: Let_def)

lemma handle_line_count:
  "length (printed (handle_line env i line)) =
     (if py_strip line = [] then 0
      else case json_loads env line of
             Inl e \<Rightarrow> 1
           | Inr req \<Rightarrow>
               (case py_get req ''command'' of
                  Inl e \<Rightarrow> 1
                | Inr command \<Rightarrow>
                    if command = JStr ''transcribe'' \<or> command = JStr ''ping'' then 1 else 0))"
proof (cases "py_strip line = []")
  case True
  then show ?thesis by (simp add: handle_line_def)
next
  case False
  show ?thesis
  proof (cases "ended (handle_request env i line)")
    case Next
    with False have "handle_line env i line = handle_request env i line"
      by (simp add: handle_line_passed)
    with False Next show ?thesis
      by (auto simp add: handle_request_def handle_transcribe_next split: sum.splits if_splits)
  next
    case Break
    with False have "handle_line env i line = handle_request env i line"
      by (simp add: handle_line_passed)
    with False Break show ?thesis
      by (auto simp add: handle_request_def handle_transcribe_not_break split: sum.splits if_splits)
  next
    case (Raised e)
    with False have "printed (handle_line env i line) = [error_response e]"
      by (simp add: handle_line_raised)
    with False Raised show ?thesis
      by (auto simp add: handle_request_def split: sum.splits if_splits)
  qed
qed

lemma server_loop_emitted_le:
  "length (emitted (server_loop env i stdin)) \<le> reads (server_loop env i stdin)"
proof (induction env i stdin rule: server_loop.induct)
  case (1 env i)
  show ?case by simp
next
  case (2 env i e rest)
  show ?case by simp
next
  case (3 env i line rest)
  have one: "length (printed (handle_line env i line)) \<le> 1"
    by (simp add: handle_line_count split: sum.splits)
  show ?case
  proof (cases "ended (handle_line env i line) = Break")
    case True
    with one show ?thesis by (simp add: server_loop_break del: server_loop.simps)
  next
    case False
    with 3 have "length (emitted (server_loop env (Suc i) rest))
                 \<le> reads (server_loop env (Suc i) rest)"
      by simp
    with one False show ?thesis by (simp add: server_loop_next del: server_loop.simps)
  qed
qed

subsection \<open>The concrete environment, evaluated\<close>

lemmas line_defs =
  ping_line_def exit_line_def reload_line_def empty_object_line_def array_line_def
  blank_line_def garbage_line_def good_line_def gone_line_def noise_line_def
  no_path_line_def dq_def

lemma example_blank: "py_strip blank_line = []"
  by (simp add: py_strip_def py_isspace_def blank_line_def)

lemma example_nonblank:
  "py_strip ping_line \<noteq> []" "py_strip exit_line \<noteq> []" "py_strip reload_line \<noteq> []"
  "py_strip empty_object_line \<noteq> []" "py_strip array_line \<noteq> []"
  "py_strip garbage_line \<noteq> []" "py_strip good_line \<noteq> []" "py_strip gone_line \<noteq> []"
  "py_strip noise_line \<noteq> []" "py_strip no_path_line \<noteq> []"
  by (simp_all add: py_strip_def py_isspace_def line_defs)

lemma example_loads:
  "json_loads example_env ping_line = Inr (JObj [(''command'', JStr ''ping'')])"
  "json_loads example_env exit_line = Inr (JObj [(''command'', JStr ''exit'')])"
  "json_loads example_env reload_line = Inr (JObj [(''command'', JStr ''reload'')])"
  "json_loads example_env empty_object_line = Inr (JObj [])"
  "json_loads example_env array_line = Inr (JArr [])"
  "json_loads example_env garbage_line =
     Inl (Exception ''Expecting value: line 1 column 1 (char 0)'')"
  "json_loads example_env good_line =
     Inr (JObj [(''command'', JStr ''transcribe''), (''file_path'', JStr ''a.wav''),
                (''id'', JInt 8)])"
  "json_loads example_env gone_line =
     Inr (JObj [(''command'', JStr ''transcribe''), (''file_path'', JStr ''gone.wav''),
                (''id'', JInt 7)])"
  "json_loads example_env noise_line =
     Inr (JObj [(''command'', JStr ''transcribe''), (''file_path'', JStr ''noise.wav''),
                (''id'', JInt 9)])"
  "json_loads example_env no_path_line =
     Inr (JObj [(''command'', JStr ''transcribe''), (''id'', JInt 7)])"
  by (simp_all add: example_env_def example_loads_def line_defs)

lemma example_request:
  "handle_request example_env i ping_line =
     \<lparr>printed = [JObj [(''type'', JStr ''pong'')]], invoked = [], ended = Next\<rparr>"
  "handle_request example_env i exit_line = \<lparr>printed = [], invoked = [], ended = Break\<rparr>"
  "handle_request example_env i reload_line = \<lparr>printed = [], invoked = [], ended = Next\<rparr>"
  "handle_request example_env i empty_object_line =
     \<lparr>printed = [], invoked = [], ended = Next\<rparr>"
  "handle_request example_env i array_line =
     \<lparr>printed = [], invoked = [],
      ended = Raised (Exception (quoted ''list'' @ '' object has no attribute '' @ quoted ''get''))\<rparr>"
  "handle_request example_env i garbage_line =
     \<lparr>printed = [], invoked = [],
      ended = Raised (Exception ''Expecting value: line 1 column 1 (char 0)'')\<rparr>"
  by (simp_all add: handle_request_def example_loads)

lemma example_transcribe:
  "handle_request example_env i good_line =
     \<lparr>printed = [JObj [(''type'', JStr ''result''), (''text'', JStr ''hello world''),
                        (''file_path'', JStr ''a.wav''), (''id'', JInt 8)]],
      invoked = [JStr ''a.wav''], ended = Next\<rparr>"
  "handle_request example_env i gone_line =
     \<lparr>printed = [JObj [(''type'', JStr ''error''), (''message'', JStr ''File not found''),
                        (''id'', JInt 7)]],
      invoked = [], ended = Next\<rparr>"
  "handle_request example_env i noise_line =
     \<lparr>printed = [], invoked = [JStr ''noise.wav''],
      ended = Raised (Exception ''decoder failed'')\<rparr>"
  "handle_request example_env i no_path_line =
     \<lparr>printed = [], invoked = [],
      ended = Raised (Exception
        ''stat: path should be string, bytes, os.PathLike or integer, not NoneType'')\<rparr>"
  by (simp_all add: handle_request_def handle_transcribe_def transcribe_def file_not_found_def
        example_loads)
     (simp_all add: example_env_def transcribe_def file_not_found_def)

lemma example_line:
  "handle_line example_env i blank_line = \<lparr>printed = [], invoked = [], ended = Next\<rparr>"
  "handle_line example_env i ping_line =
     \<lparr>printed = [JObj [(''type'', JStr ''pong'')]], invoked = [], ended = Next\<rparr>"
  "handle_line example_env i exit_line = \<lparr>printed = [], invoked = [], ended = Break\<rparr>"
  "handle_line example_env i reload_line = \<lparr>printed = [], invoked = [], ended = Next\<rparr>"
  "handle_line example_env i empty_object_line = \<lparr>printed = [], invoked = [], ended = Next\<rparr>"
  "handle_line example_env i array_line =
     \<lparr>printed = [JObj [(''type'', JStr ''error''),
                        (''message'', JStr (quoted ''list'' @ '' object has no attribute ''
                                            @ quoted ''get''))]],
      invoked = [], ended = Next\<rparr>"
  "handle_line example_env i garbage_line =
     \<lparr>printed = [JObj [(''type'', JStr ''error''),
                        (''message'', JStr ''Expecting value: line 1 column 1 (char 0)'')]],
      invoked = [], ended = Next\<rparr>"
  "handle_line example_env i good_line =
     \<lparr>printed = [JObj [(''type'', JStr ''result''), (''text'', JStr ''hello world''),
                        (''file_path'', JStr ''a.wav''), (''id'', JInt 8)]],
      invoked = [JStr ''a.wav''], ended = Next\<rparr>"
  "handle_line example_env i gone_line =
     \<lparr>printed = [JObj [(''type'', JStr ''error''), (''message'', JStr ''File not found''),
                        (''id'', JInt 7)]],
      invoked = [], ended = Next\<rparr>"
  "handle_line example_env i noise_line =
     \<lparr>printed = [JObj [(''type'', JStr ''error''), (''message'', JStr ''decoder failed'')]],
      invoked = [JStr ''noise.wav''], ended = Next\<rparr>"
  "handle_line example_env i no_path_line =
     \<lparr>printed = [JObj [(''type'', JStr ''error''),
                        (''message'', JStr
        ''stat: path should be string, bytes, os.PathLike or integer, not NoneType'')]],
      invoked = [], ended = Next\<rparr>"
  by (simp_all add: handle_line_def example_blank example_nonblank example_request
        example_transcribe error_response_def)

lemma example_service: "NemotronService example_env model_name = Inr ''cuda''"
  "server_imports example_env = None"
  by (simp_all add: NemotronService_def server_imports_def example_env_def)

subsection \<open>The loop as a whole\<close>

lemma run_server_ready:
  "server_imports env = None \<Longrightarrow> NemotronService env model_name = Inr device \<Longrightarrow>
   run_server env model_name stdin =
     \<lparr>stdout = ready_status device # emitted (server_loop env 0 stdin) @
                (case stopped (server_loop env 0 stdin) of
                   ReadFailed e \<Rightarrow> [fatal_response e] | _ \<Rightarrow> []),
      model_calls = transcribed (server_loop env 0 stdin),
      lines_read = reads (server_loop env 0 stdin),
      finished = Returned\<rparr>"
  by (simp add: run_server_def Let_def)

lemma server_loop_emitted:
  "emitted (server_loop env i (Inr line # rest)) =
     printed (handle_line env i line) @
     (if ended (handle_line env i line) = Break then []
      else emitted (server_loop env (Suc i) rest))"
  by (simp add: Let_def)

lemma server_loop_stopped:
  "case stopped (server_loop env i stdin) of
     EndOfInput \<Rightarrow> reads (server_loop env i stdin) = length stdin
   | ExitCommand \<Rightarrow>
       (\<exists>pre line rest req. stdin = pre @ Inr line # rest \<and>
          reads (server_loop env i stdin) = Suc (length pre) \<and> py_strip line \<noteq> [] \<and>
          json_loads env line = Inr req \<and> py_get req ''command'' = Inr (JStr ''exit''))
   | ReadFailed e \<Rightarrow>
       (\<exists>pre rest. stdin = pre @ Inl e # rest \<and>
          reads (server_loop env i stdin) = Suc (length pre))"
proof (induction env i stdin rule: server_loop.induct)
  case (1 env i)
  show ?case by simp
next
  case (2 env i e rest)
  have "Inl e # rest = [] @ Inl e # rest \<and> (1::nat) = Suc (length ([]::(exn + string) list))"
    by simp
  then show ?case by (simp del: append_Nil) blast
next
  case (3 env i line rest)
  show ?case
  proof (cases "ended (handle_line env i line) = Break")
    case True
    from handle_line_break [OF True] obtain req where
      req: "py_strip line \<noteq> []" "json_loads env line = Inr req"
           "py_get req ''command'' = Inr (JStr ''exit'')"
      by blast
    have "Inr line # rest = [] @ Inr line # rest" by simp
    with req have "\<exists>pre l rest' req. Inr line # rest = pre @ Inr l # rest' \<and>
        (1::nat) = Suc (length pre) \<and> py_strip l \<noteq> [] \<and>
        json_loads env l = Inr req \<and> py_get req ''command'' = Inr (JStr ''exit'')"
      by (metis list.size(3) One_nat_def)
    with True show ?thesis by (simp add: server_loop_break del: server_loop.simps)
  next
    case False
    let ?l = "server_loop env (Suc i) rest"
    from False 3 have IH:
      "case stopped ?l of
         EndOfInput \<Rightarrow> reads ?l = length rest
       | ExitCommand \<Rightarrow>
           (\<exists>pre line rest' req. rest = pre @ Inr line # rest' \<and>
              reads ?l = Suc (length pre) \<and> py_strip line \<noteq> [] \<and>
              json_loads env line = Inr req \<and> py_get req ''command'' = Inr (JStr ''exit''))
       | ReadFailed e \<Rightarrow>
           (\<exists>pre rest'. rest = pre @ Inl e # rest' \<and> reads ?l = Suc (length pre))"
      by simp
    show ?thesis
    proof (cases "stopped ?l")
      case EndOfInput
      with IH False show ?thesis by (simp add: server_loop_next del: server_loop.simps)
    next
      case ExitCommand
      with IH obtain pre l rest' req where
        h: "rest = pre @ Inr l # rest'" "reads ?l = Suc (length pre)" "py_strip l \<noteq> []"
           "json_loads env l = Inr req" "py_get req ''command'' = Inr (JStr ''exit'')"
        by auto
      then have "Inr line # rest = (Inr line # pre) @ Inr l # rest' \<and>
                 Suc (reads ?l) = Suc (length (Inr line # pre))"
        by simp
      with h have "\<exists>pre l rest' req. Inr line # rest = pre @ Inr l # rest' \<and>
          Suc (reads ?l) = Suc (length pre) \<and> py_strip l \<noteq> [] \<and>
          json_loads env l = Inr req \<and> py_get req ''command'' = Inr (JStr ''exit'')"
        by blast
      with ExitCommand False show ?thesis
        by (simp add: server_loop_next del: server_loop.simps)
    next
      case (ReadFailed e)
      with IH obtain pre rest' where
        h: "rest = pre @ Inl e # rest'" "reads ?l = Suc (length pre)"
        by auto
      then have "Inr line # rest = (Inr line # pre) @ Inl e # rest' \<and>
                 Suc (reads ?l) = Suc (length (Inr line # pre))"
        by simp
      then have "\<exists>pre rest'. Inr line # rest = pre @ Inl e # rest' \<and>
                 Suc (reads ?l) = Suc (length pre)"
        by blast
      with ReadFailed False show ?thesis
        by (simp add: server_loop_next del: server_loop.simps)
    qed
  qed
qed

subsection \<open>The trace of reads and writes\<close>

lemma writes_append: "writes (xs @ ys) = writes xs @ writes ys"
  by (induction xs rule: writes.induct) simp_all

lemma writes_map_Write: "writes (map Write ws) = ws"
  by (induction ws) simp_all

lemma line_reads_append: "line_reads (xs @ ys) = line_reads xs + line_reads ys"
  by (induction xs rule: line_reads.induct) simp_all

lemma line_reads_map_Write: "line_reads (map Write ws) = 0"
  by (induction ws) simp_all

lemma answers_map_Write: "answers (map Write ws @ es) = answers es"
  by (induction ws) simp_all

lemma written_map_Write:
  "written_before_next_read (map Write ws @ es) = ws @ written_before_next_read es"
  by (induction ws) (simp_all add: written_before_next_read_def)

lemma written_read: "is_read e \<Longrightarrow> written_before_next_read (e # es) = []"
  by (simp add: written_before_next_read_def)

lemma server_loop_events_read:
  "\<exists>e es. server_loop_events env i stdin = e # es \<and> is_read e"
  by (induction env i stdin rule: server_loop_events.induct) (simp_all add: Let_def)

lemma written_server_loop_events:
  "written_before_next_read (server_loop_events env i stdin @ es) = []"
  using server_loop_events_read [of env i stdin] by (auto simp add: written_read)

lemma server_loop_events_writes:
  "writes (server_loop_events env i stdin) = emitted (server_loop env i stdin)"
  by (induction env i stdin rule: server_loop.induct)
     (simp_all add: Let_def writes_append writes_map_Write)

lemma server_loop_events_reads:
  "line_reads (server_loop_events env i stdin) = reads (server_loop env i stdin)"
  by (induction env i stdin rule: server_loop.induct)
     (simp_all add: Let_def line_reads_append line_reads_map_Write)

lemma run_server_events_writes:
  "writes (run_server_events env model_name stdin) = stdout (run_server env model_name stdin)"
  by (simp add: run_server_events_def run_server_def Let_def writes_append
        server_loop_events_writes split: option.split exn.split sum.split loop_end.split)

lemma run_server_events_reads:
  "line_reads (run_server_events env model_name stdin) =
     lines_read (run_server env model_name stdin)"
  by (simp add: run_server_events_def run_server_def Let_def line_reads_append
        server_loop_events_reads split: option.split exn.split sum.split loop_end.split)

lemma answers_server_loop_events:
  "answers (server_loop_events env i (Inr line # rest) @ es) =
     (ReadLine line,
      printed (handle_line env i line) @
      (if ended (handle_line env i line) = Break then written_before_next_read es else [])) #
     (if ended (handle_line env i line) = Break then answers es
      else answers (server_loop_events env (Suc i) rest @ es))"
  by (simp add: Let_def answers_map_Write written_map_Write written_server_loop_events)

lemma answers_loop_bounded:
  "list_all (\<lambda>(r, ws). length ws \<le> 1)
     (answers (server_loop_events env i stdin @
        (case stopped (server_loop env i stdin) of
           ReadFailed e \<Rightarrow> [Write (fatal_response e)] | _ \<Rightarrow> [])))"
proof (induction env i stdin rule: server_loop.induct)
  case (1 env i)
  show ?case by (simp add: written_before_next_read_def)
next
  case (2 env i e rest)
  show ?case by (simp add: written_before_next_read_def)
next
  case (3 env i line rest)
  have one: "length (printed (handle_line env i line)) \<le> 1"
    by (simp add: handle_line_count split: sum.splits)
  show ?case
  proof (cases "ended (handle_line env i line) = Break")
    case True
    then have s: "stopped (server_loop env i (Inr line # rest)) = ExitCommand"
      by (simp add: server_loop_break del: server_loop.simps)
    from True one answers_server_loop_events [of env i line rest "[]"] show ?thesis
      unfolding s
      by (simp add: written_before_next_read_def del: server_loop_events.simps)
  next
    case False
    let ?tail = "case stopped (server_loop env (Suc i) rest) of
                   ReadFailed e \<Rightarrow> [Write (fatal_response e)] | _ \<Rightarrow> []"
    from False 3 have IH: "list_all (\<lambda>(r, ws). length ws \<le> 1)
        (answers (server_loop_events env (Suc i) rest @ ?tail))"
      by simp
    from False have s: "stopped (server_loop env i (Inr line # rest)) =
        stopped (server_loop env (Suc i) rest)"
      by (simp add: server_loop_next del: server_loop.simps)
    from False one IH show ?thesis
      unfolding s answers_server_loop_events by simp
  qed
qed

lemma answers_run_bounded:
  "list_all (\<lambda>(r, ws). length ws \<le> 1) (answers (run_server_events env model_name stdin))"
proof (cases "server_imports env")
  case None
  show ?thesis
  proof (cases "NemotronService env model_name")
    case (Inl e)
    with None show ?thesis by (simp add: run_server_events_def)
  next
    case (Inr device)
    with None answers_loop_bounded [of env 0 stdin] show ?thesis
      by (simp add: run_server_events_def)
  qed
next
  case (Some e)
  then show ?thesis by (cases e) (simp_all add: run_server_events_def)
qed

lemma answers_loop_all:
  "concat (map snd (answers (server_loop_events env i stdin))) =
     emitted (server_loop env i stdin)"
proof (induction env i stdin rule: server_loop.induct)
  case (1 env i)
  show ?case by (simp add: written_before_next_read_def)
next
  case (2 env i e rest)
  show ?case by (simp add: written_before_next_read_def)
next
  case (3 env i line rest)
  show ?case
  proof (cases "ended (handle_line env i line) = Break")
    case True
    then show ?thesis
      using answers_server_loop_events [of env i line rest "[]"]
      by (simp add: server_loop_break written_before_next_read_def del: server_loop.simps server_loop_events.simps)
  next
    case False
    with 3 have "concat (map snd (answers (server_loop_events env (Suc i) rest))) =
        emitted (server_loop env (Suc i) rest)"
      by simp
    with False show ?thesis
      using answers_server_loop_events [of env i line rest "[]"]
      by (simp add: server_loop_next del: server_loop.simps server_loop_events.simps)
  qed
qed

lemma answers_loop_lines:
  "(ReadLine line, ws) \<in> set (answers (server_loop_events env i stdin @
        (case stopped (server_loop env i stdin) of
           ReadFailed e \<Rightarrow> [Write (fatal_response e)] | _ \<Rightarrow> []))) \<Longrightarrow>
   \<exists>j. i \<le> j \<and> j < i + length stdin \<and> ws = printed (handle_line env j line)"
proof (induction env i stdin rule: server_loop.induct)
  case (1 env i)
  then show ?case by (simp add: written_before_next_read_def)
next
  case (2 env i e rest)
  then show ?case by (simp add: written_before_next_read_def)
next
  case (3 env i l rest)
  show ?case
  proof (cases "ended (handle_line env i l) = Break")
    case True
    then have s: "stopped (server_loop env i (Inr l # rest)) = ExitCommand"
      by (simp add: server_loop_break del: server_loop.simps)
    from 3(2) True answers_server_loop_events [of env i l rest "[]"]
    have "line = l \<and> ws = printed (handle_line env i l)"
      unfolding s by (simp add: written_before_next_read_def del: server_loop_events.simps)
    then show ?thesis by auto
  next
    case False
    let ?tail = "case stopped (server_loop env (Suc i) rest) of
                   ReadFailed e \<Rightarrow> [Write (fatal_response e)] | _ \<Rightarrow> []"
    from False have s: "stopped (server_loop env i (Inr l # rest)) =
        stopped (server_loop env (Suc i) rest)"
      by (simp add: server_loop_next del: server_loop.simps)
    from 3(2) False have "(line = l \<and> ws = printed (handle_line env i l)) \<or>
        (ReadLine line, ws) \<in> set (answers (server_loop_events env (Suc i) rest @ ?tail))"
      unfolding s answers_server_loop_events by simp
    then show ?thesis
    proof
      assume "line = l \<and> ws = printed (handle_line env i l)"
      then show ?thesis by auto
    next
      assume "(ReadLine line, ws) \<in> set (answers (server_loop_events env (Suc i) rest @ ?tail))"
      with 3(1) False obtain j where
        "Suc i \<le> j \<and> j < Suc i + length rest \<and> ws = printed (handle_line env j line)"
        by blast
      then have "i \<le> j \<and> j < i + length (Inr l # rest) \<and> ws = printed (handle_line env j line)"
        by simp
      then show ?thesis by blast
    qed
  qed
qed

lemma answers_run_lines:
  assumes "(ReadLine line, ws) \<in> set (answers (run_server_events env model_name stdin))"
  shows "\<exists>j < length stdin. ws = printed (handle_line env j line)"
proof (cases "server_imports env")
  case None
  show ?thesis
  proof (cases "NemotronService env model_name")
    case (Inl e)
    with None assms show ?thesis by (simp add: run_server_events_def)
  next
    case (Inr device)
    with None assms answers_loop_lines [of line ws env 0 stdin] show ?thesis
      by (simp add: run_server_events_def)
  qed
next
  case (Some e)
  with assms show ?thesis by (cases e) (simp_all add: run_server_events_def)
qed

subsection \<open>Responses, exceptions, exit and ping\<close>

text \<open>
  C1, as stated, fails: a blank line and a request with an unknown command are read and
  answered by nothing. Here two lines are read and standard output holds the ready status
  only.
\<close>

theorem one_response_per_line_counterexample:
  "lines_read (run_server example_env ''nemotron'' [Inr blank_line, Inr reload_line]) = 2 \<and>
   stdout (run_server example_env ''nemotron'' [Inr blank_line, Inr reload_line]) =
     [JObj [(''type'', JStr ''status''), (''status'', JStr ''ready''),
            (''device'', JStr ''cuda'')]]"
  by (simp add: run_server_ready [OF example_service(2) example_service(1)] example_line
        ready_status_def Let_def)

text \<open>
  C1, amended. After the ready status, every line read produces at most one response, and
  that response is written after the line is read and before the next read: in the trace
  of the server, what is written between the read of a line and the next read is exactly
  what the loop body prints for that line, and nothing is written by the loop anywhere
  else. The response is exactly one when the line is not blank and either its handling
  raises (it is no JSON, or it is no JSON object) or its command is \<^verbatim>\<open>transcribe\<close> or
  \<^verbatim>\<open>ping\<close>; there is none when the line is blank or its command is \<^verbatim>\<open>exit\<close>, absent or
  unknown. The trace writes what the run prints and reads what the run reads.

  The first four conjuncts count the responses; the remaining ones are about the trace:
  \<open>answers\<close> pairs each read with what is written before the next read.
\<close>

theorem at_most_one_response_per_line:
  "length (printed (handle_line env i line)) =
     (if py_strip line = [] then 0
      else case json_loads env line of
             Inl e \<Rightarrow> 1
           | Inr req \<Rightarrow>
               (case py_get req ''command'' of
                  Inl e \<Rightarrow> 1
                | Inr command \<Rightarrow>
                    if command = JStr ''transcribe'' \<or> command = JStr ''ping'' then 1 else 0)) \<and>
   emitted (server_loop env i (Inr line # rest)) =
     printed (handle_line env i line) @
     (if ended (handle_line env i line) = Break then []
      else emitted (server_loop env (Suc i) rest)) \<and>
   length (emitted (server_loop env i stdin)) \<le> reads (server_loop env i stdin) \<and>
   (server_imports env = None \<and> NemotronService env model_name = Inr device \<longrightarrow>
    stdout (run_server env model_name stdin) =
      ready_status device # emitted (server_loop env 0 stdin) @
      (case stopped (server_loop env 0 stdin) of
         ReadFailed e \<Rightarrow> [fatal_response e] | _ \<Rightarrow> [])) \<and>
   answers (server_loop_events env i (Inr line # rest)) =
     (ReadLine line, printed (handle_line env i line)) #
     (if ended (handle_line env i line) = Break then []
      else answers (server_loop_events env (Suc i) rest)) \<and>
   concat (map snd (answers (server_loop_events env i stdin))) =
     emitted (server_loop env i stdin) \<and>
   list_all (\<lambda>(r, ws). length ws \<le> 1) (answers (run_server_events env model_name stdin)) \<and>
   writes (run_server_events env model_name stdin) = stdout (run_server env model_name stdin) \<and>
   line_reads (run_server_events env model_name stdin) =
     lines_read (run_server env model_name stdin) \<and>
   (server_imports env = None \<and> NemotronService env model_name = Inr device \<longrightarrow>
    run_server_events env model_name stdin =
      Write (ready_status device) # server_loop_events env 0 stdin @
      (case stopped (server_loop env 0 stdin) of
         ReadFailed e \<Rightarrow> [Write (fatal_response e)] | _ \<Rightarrow> [])) \<and>
   ((ReadLine l, ws) \<in> set (answers (run_server_events env model_name stdin)) \<longrightarrow>
    (\<exists>j < length stdin. ws = printed (handle_line env j l)))"
proof -
  have seg: "answers (server_loop_events env i (Inr line # rest)) =
     (ReadLine line, printed (handle_line env i line)) #
     (if ended (handle_line env i line) = Break then []
      else answers (server_loop_events env (Suc i) rest))"
    using answers_server_loop_events [of env i line rest "[]"]
    by (simp add: written_before_next_read_def del: server_loop_events.simps)
  have ev: "run_server_events env model_name stdin =
      Write (ready_status device) # server_loop_events env 0 stdin @
      (case stopped (server_loop env 0 stdin) of
         ReadFailed e \<Rightarrow> [Write (fatal_response e)] | _ \<Rightarrow> [])"
    if "server_imports env = None \<and> NemotronService env model_name = Inr device"
    using that by (simp add: run_server_events_def)
  have out: "stdout (run_server env model_name stdin) =
      ready_status device # emitted (server_loop env 0 stdin) @
      (case stopped (server_loop env 0 stdin) of
         ReadFailed e \<Rightarrow> [fatal_response e] | _ \<Rightarrow> [])"
    if "server_imports env = None \<and> NemotronService env model_name = Inr device"
    using that run_server_ready [of env model_name device stdin] by simp
  from handle_line_count [of env i line] server_loop_emitted [of env i line rest]
    server_loop_emitted_le [of env i stdin] out seg answers_loop_all [of env i stdin]
    answers_run_bounded [of env model_name stdin]
    run_server_events_writes [of env model_name stdin]
    run_server_events_reads [of env model_name stdin] ev
    answers_run_lines [of l ws env model_name stdin]
  show ?thesis by blast
qed

theorem at_most_one_response_per_line_witness:
  "length (printed (handle_line example_env 0 ping_line)) = 1 \<and>
   length (printed (handle_line example_env 0 garbage_line)) = 1 \<and>
   length (printed (handle_line example_env 0 blank_line)) = 0 \<and>
   length (printed (handle_line example_env 0 reload_line)) = 0 \<and>
   stdout (run_server example_env ''nemotron'' [Inr ping_line, Inr blank_line, Inr good_line]) =
     [JObj [(''type'', JStr ''status''), (''status'', JStr ''ready''), (''device'', JStr ''cuda'')],
      JObj [(''type'', JStr ''pong'')],
      JObj [(''type'', JStr ''result''), (''text'', JStr ''hello world''),
            (''file_path'', JStr ''a.wav''), (''id'', JInt 8)]] \<and>
   run_server_events example_env ''nemotron'' [Inr ping_line, Inr blank_line, Inr good_line] =
     [Write (JObj [(''type'', JStr ''status''), (''status'', JStr ''ready''),
                   (''device'', JStr ''cuda'')]),
      ReadLine ping_line,
      Write (JObj [(''type'', JStr ''pong'')]),
      ReadLine blank_line,
      ReadLine good_line,
      Write (JObj [(''type'', JStr ''result''), (''text'', JStr ''hello world''),
                   (''file_path'', JStr ''a.wav''), (''id'', JInt 8)]),
      ReadEnd] \<and>
   answers (server_loop_events example_env 0 [Inr ping_line, Inr blank_line, Inr good_line]) =
     [(ReadLine ping_line, [JObj [(''type'', JStr ''pong'')]]),
      (ReadLine blank_line, []),
      (ReadLine good_line,
       [JObj [(''type'', JStr ''result''), (''text'', JStr ''hello world''),
              (''file_path'', JStr ''a.wav''), (''id'', JInt 8)]]),
      (ReadEnd, [])] \<and>
   (ReadLine ping_line, [JObj [(''type'', JStr ''pong'')]])
     \<in> set (answers (run_server_events example_env ''nemotron''
                [Inr ping_line, Inr blank_line, Inr good_line]))"
proof -
  have h: "server_imports example_env = None \<and>
           NemotronService example_env ''nemotron'' = Inr ''cuda''"
    by (simp add: example_service)
  from h
    at_most_one_response_per_line [of example_env 0 ping_line "[Inr blank_line, Inr good_line]"
       "[]" "''nemotron''" "''cuda''"]
    at_most_one_response_per_line [of example_env 0 garbage_line "[]" "[]" "''nemotron''" "''cuda''"]
    at_most_one_response_per_line [of example_env 0 blank_line "[]" "[]" "''nemotron''" "''cuda''"]
    at_most_one_response_per_line [of example_env 0 reload_line "[]"
       "[Inr ping_line, Inr blank_line, Inr good_line]" "''nemotron''" "''cuda''"]
  show ?thesis
    by (simp add: example_line example_loads example_blank example_nonblank ready_status_def
          Let_def written_before_next_read_def)
qed

lemma handle_request_loads_failed:
  "json_loads env line = Inl e \<Longrightarrow>
   handle_request env i line = \<lparr>printed = [], invoked = [], ended = Raised e\<rparr>"
  by (simp add: handle_request_def)

text \<open>
  C3. A line whose handling raises (a line that is no JSON is one) is answered by exactly
  one error response, and the loop goes on with the next line. The loop itself ends in one
  of three ways: the input has ended (every line was read), a line with the command
  \<^verbatim>\<open>exit\<close> was read, or a read of standard input raised, which is the fatal failure.
\<close>

theorem line_exception_reported:
  "(py_strip line \<noteq> [] \<and> ended (handle_request env i line) = Raised e \<longrightarrow>
      printed (handle_line env i line) = [error_response e] \<and>
      ended (handle_line env i line) = Next \<and>
      emitted (server_loop env i (Inr line # rest)) =
        error_response e # emitted (server_loop env (Suc i) rest) \<and>
      reads (server_loop env i (Inr line # rest)) = Suc (reads (server_loop env (Suc i) rest))) \<and>
   (json_loads env line = Inl e \<longrightarrow> ended (handle_request env i line) = Raised e) \<and>
   (case stopped (server_loop env i stdin) of
      EndOfInput \<Rightarrow> reads (server_loop env i stdin) = length stdin
    | ExitCommand \<Rightarrow>
        (\<exists>pre line rest req. stdin = pre @ Inr line # rest \<and>
           reads (server_loop env i stdin) = Suc (length pre) \<and> py_strip line \<noteq> [] \<and>
           json_loads env line = Inr req \<and> py_get req ''command'' = Inr (JStr ''exit''))
    | ReadFailed e \<Rightarrow>
        (\<exists>pre rest. stdin = pre @ Inl e # rest \<and>
           reads (server_loop env i stdin) = Suc (length pre)))"
proof -
  have caught: "printed (handle_line env i line) = [error_response e] \<and>
      ended (handle_line env i line) = Next \<and>
      emitted (server_loop env i (Inr line # rest)) =
        error_response e # emitted (server_loop env (Suc i) rest) \<and>
      reads (server_loop env i (Inr line # rest)) = Suc (reads (server_loop env (Suc i) rest))"
    if "py_strip line \<noteq> [] \<and> ended (handle_request env i line) = Raised e"
  proof -
    from that have r: "handle_line env i line =
        \<lparr>printed = [error_response e], invoked = invoked (handle_request env i line),
         ended = Next\<rparr>"
      by (simp add: handle_line_raised)
    then have "ended (handle_line env i line) \<noteq> Break" by simp
    from server_loop_next [OF this, of rest] r show ?thesis by simp
  qed
  have malformed: "ended (handle_request env i line) = Raised e" if "json_loads env line = Inl e"
    using that by (simp add: handle_request_loads_failed)
  from caught malformed server_loop_stopped [of env i stdin] show ?thesis by blast
qed

theorem line_exception_reported_witness:
  "printed (handle_line example_env 0 garbage_line) =
     [JObj [(''type'', JStr ''error''),
            (''message'', JStr ''Expecting value: line 1 column 1 (char 0)'')]] \<and>
   emitted (server_loop example_env 0 [Inr garbage_line, Inr ping_line]) =
     [JObj [(''type'', JStr ''error''),
            (''message'', JStr ''Expecting value: line 1 column 1 (char 0)'')],
      JObj [(''type'', JStr ''pong'')]] \<and>
   reads (server_loop example_env 0 [Inr garbage_line, Inr ping_line]) = 2 \<and>
   stopped (server_loop example_env 0 [Inr garbage_line, Inr ping_line]) = EndOfInput"
proof -
  have h: "py_strip garbage_line \<noteq> [] \<and>
           json_loads example_env garbage_line =
             Inl (Exception ''Expecting value: line 1 column 1 (char 0)'')"
    by (simp add: example_nonblank example_loads)
  have s: "stopped (server_loop example_env 0 [Inr garbage_line, Inr ping_line]) = EndOfInput"
    by (simp add: example_line Let_def)
  from h s
    line_exception_reported [of garbage_line example_env 0
      "Exception ''Expecting value: line 1 column 1 (char 0)''" "[Inr ping_line]"
      "[Inr garbage_line, Inr ping_line]"]
  show ?thesis by (simp add: error_response_def example_line Let_def)
qed

text \<open>
  C7. A line whose command is \<^verbatim>\<open>exit\<close> ends the loop: it prints nothing, and whatever
  follows it on standard input is neither read nor processed, so the run is the run on the
  input cut after that line.
\<close>

theorem exit_ends_loop:
  assumes "py_strip line \<noteq> []"
    and "json_loads env line = Inr req"
    and "py_get req ''command'' = Inr (JStr ''exit'')"
  shows "server_loop env i (Inr line # rest) =
           \<lparr>emitted = [], transcribed = [], reads = 1, stopped = ExitCommand\<rparr> \<and>
         server_loop env i (pre @ Inr line # rest) = server_loop env i (pre @ [Inr line]) \<and>
         reads (server_loop env i (pre @ Inr line # rest)) \<le> Suc (length pre) \<and>
         run_server env model_name (pre @ Inr line # rest) =
           run_server env model_name (pre @ [Inr line]) \<and>
         lines_read (run_server env model_name (pre @ Inr line # rest)) \<le> Suc (length pre)"
proof -
  from assms have r: "handle_request env i line = \<lparr>printed = [], invoked = [], ended = Break\<rparr>"
    for i
    by (simp add: handle_request_def)
  with assms(1) have l: "handle_line env i line = \<lparr>printed = [], invoked = [], ended = Break\<rparr>"
    for i
    by (simp add: handle_line_def Let_def)
  then have first: "server_loop env i (Inr line # rest) =
      \<lparr>emitted = [], transcribed = [], reads = 1, stopped = ExitCommand\<rparr>" for i rest
    by (simp add: Let_def)
  have cut: "server_loop env i (pre @ Inr line # rest) = server_loop env i (pre @ [Inr line])"
    for i
  proof (induction pre arbitrary: i)
    case Nil
    show ?case by (simp only: append_Nil first)
  next
    case (Cons x pre)
    show ?case
    proof (cases x)
      case (Inl e)
      then show ?thesis by simp
    next
      case (Inr l')
      with Cons show ?thesis by (simp add: Let_def)
    qed
  qed
  have bound: "reads (server_loop env i (pre @ [Inr line])) \<le> Suc (length pre)" for i
  proof (induction pre arbitrary: i)
    case Nil
    show ?case by (simp only: append_Nil first) simp
  next
    case (Cons x pre)
    show ?case
    proof (cases x)
      case (Inl e)
      then show ?thesis by simp
    next
      case (Inr l')
      with Cons [of "Suc i"] show ?thesis by (simp add: Let_def)
    qed
  qed
  have run: "run_server env model_name (pre @ Inr line # rest) =
             run_server env model_name (pre @ [Inr line])"
    unfolding run_server_def cut by (rule refl)
  have "lines_read (run_server env model_name (pre @ [Inr line])) \<le> Suc (length pre)"
    using bound [of 0]
    by (simp add: run_server_def Let_def split: option.split exn.split sum.split)
  with first cut bound run show ?thesis by simp
qed

theorem exit_ends_loop_witness:
  "run_server example_env ''nemotron'' [Inr ping_line, Inr exit_line, Inr ping_line, Inr good_line] =
     run_server example_env ''nemotron'' [Inr ping_line, Inr exit_line] \<and>
   lines_read (run_server example_env ''nemotron''
     [Inr ping_line, Inr exit_line, Inr ping_line, Inr good_line]) \<le> 2"
proof -
  have a: "py_strip exit_line \<noteq> []" by (simp add: example_nonblank)
  have b: "json_loads example_env exit_line = Inr (JObj [(''command'', JStr ''exit'')])"
    by (simp add: example_loads)
  have c: "py_get (JObj [(''command'', JStr ''exit'')]) ''command'' = Inr (JStr ''exit'')"
    by simp
  have p: "[Inr ping_line] @ Inr exit_line # [Inr ping_line, Inr good_line] =
           [Inr ping_line, Inr exit_line, Inr ping_line, Inr good_line :: exn + string]"
    by simp
  have q: "[Inr ping_line] @ [Inr exit_line] = [Inr ping_line, Inr exit_line :: exn + string]"
    by simp
  have n: "Suc (length [Inr ping_line :: exn + string]) = 2" by simp
  from exit_ends_loop [OF a b c, of 0 "[Inr ping_line, Inr good_line]" "[Inr ping_line]"
      "''nemotron''"]
  show ?thesis unfolding p q n by blast
qed

text \<open>
  C8. A request whose command is \<^verbatim>\<open>ping\<close> is answered by exactly one response, of type
  \<^verbatim>\<open>pong\<close>; the model is not called and the loop goes on with the next line.
\<close>

theorem ping_pong:
  assumes "py_strip line \<noteq> []"
    and "json_loads env line = Inr req"
    and "py_get req ''command'' = Inr (JStr ''ping'')"
  shows "handle_line env i line =
           \<lparr>printed = [JObj [(''type'', JStr ''pong'')]], invoked = [], ended = Next\<rparr> \<and>
         emitted (server_loop env i (Inr line # rest)) =
           JObj [(''type'', JStr ''pong'')] # emitted (server_loop env (Suc i) rest) \<and>
         reads (server_loop env i (Inr line # rest)) = Suc (reads (server_loop env (Suc i) rest))"
proof -
  from assms have "handle_request env i line =
      \<lparr>printed = [JObj [(''type'', JStr ''pong'')]], invoked = [], ended = Next\<rparr>"
    by (simp add: handle_request_def)
  with assms(1) have l: "handle_line env i line =
      \<lparr>printed = [JObj [(''type'', JStr ''pong'')]], invoked = [], ended = Next\<rparr>"
    by (simp add: handle_line_def Let_def)
  then show ?thesis by (simp add: Let_def)
qed

theorem ping_pong_witness:
  "emitted (server_loop example_env 0 [Inr ping_line, Inr ping_line]) =
     [JObj [(''type'', JStr ''pong'')], JObj [(''type'', JStr ''pong'')]] \<and>
   reads (server_loop example_env 0 [Inr ping_line, Inr ping_line]) = 2"
proof -
  have a: "py_strip ping_line \<noteq> []" by (simp add: example_nonblank)
  have b: "json_loads example_env ping_line = Inr (JObj [(''command'', JStr ''ping'')])"
    by (simp add: example_loads)
  have c: "py_get (JObj [(''command'', JStr ''ping'')]) ''command'' = Inr (JStr ''ping'')"
    by simp
  from ping_pong [OF a b c, of 0 "[Inr ping_line]"] ping_pong [OF a b c, of 1 "[]"]
  show ?thesis by simp
qed

subsection \<open>The shape of what the server prints\<close>

lemma handle_transcribe_printed:
  "obj \<in> set (printed (handle_transcribe env i req)) \<Longrightarrow>
   (\<exists>text file_path req_id. obj =
      JObj [(''type'', JStr ''result''), (''text'', JStr text), (''file_path'', file_path),
            (''id'', req_id)]) \<or>
   (\<exists>req_id. obj = file_not_found req_id)"
  by (cases "py_get req ''file_path''"; cases "py_get req ''id''";
      cases "os_path_exists env i (projr (py_get req ''file_path''))";
      cases "transcribe env i (projr (py_get req ''file_path''))")
     (auto simp add: handle_transcribe_def split: bool.splits)

lemma handle_request_printed:
  "obj \<in> set (printed (handle_request env i line)) \<Longrightarrow>
   obj = JObj [(''type'', JStr ''pong'')] \<or>
   (\<exists>text file_path req_id. obj =
      JObj [(''type'', JStr ''result''), (''text'', JStr text), (''file_path'', file_path),
            (''id'', req_id)]) \<or>
   (\<exists>req_id. obj = file_not_found req_id)"
  by (cases "json_loads env line"; cases "py_get (projr (json_loads env line)) ''command''")
     (auto simp add: handle_request_def dest: handle_transcribe_printed split: if_splits)

lemma handle_line_printed:
  "obj \<in> set (printed (handle_line env i line)) \<Longrightarrow>
   obj = JObj [(''type'', JStr ''pong'')] \<or>
   (\<exists>text file_path req_id. obj =
      JObj [(''type'', JStr ''result''), (''text'', JStr text), (''file_path'', file_path),
            (''id'', req_id)]) \<or>
   (\<exists>req_id. obj = file_not_found req_id) \<or>
   (\<exists>e. obj = error_response e)"
proof (cases "py_strip line = []")
  case True
  assume "obj \<in> set (printed (handle_line env i line))"
  with True show ?thesis by (simp add: handle_line_def)
next
  case False
  assume m: "obj \<in> set (printed (handle_line env i line))"
  show ?thesis
  proof (cases "ended (handle_request env i line)")
    case Next
    with False m have "obj \<in> set (printed (handle_request env i line))"
      by (simp add: handle_line_passed)
    from handle_request_printed [OF this] show ?thesis by blast
  next
    case Break
    with False m have "obj \<in> set (printed (handle_request env i line))"
      by (simp add: handle_line_passed)
    from handle_request_printed [OF this] show ?thesis by blast
  next
    case (Raised e)
    with False m have "obj = error_response e" by (simp add: handle_line_raised)
    then show ?thesis by blast
  qed
qed

lemma server_loop_printed:
  "obj \<in> set (emitted (server_loop env i stdin)) \<Longrightarrow>
   \<exists>j line. obj \<in> set (printed (handle_line env j line))"
proof (induction env i stdin rule: server_loop.induct)
  case (1 env i)
  then show ?case by simp
next
  case (2 env i e rest)
  then show ?case by simp
next
  case (3 env i line rest)
  show ?case
  proof (cases "ended (handle_line env i line) = Break")
    case True
    with 3(2) have "obj \<in> set (printed (handle_line env i line))"
      by (simp add: server_loop_break del: server_loop.simps)
    then show ?thesis by blast
  next
    case False
    with 3(2) have "obj \<in> set (printed (handle_line env i line)) \<or>
                    obj \<in> set (emitted (server_loop env (Suc i) rest))"
      by (simp add: server_loop_next del: server_loop.simps)
    with 3(1) False show ?thesis by auto
  qed
qed

lemma run_server_printed:
  "obj \<in> set (stdout (run_server env model_name stdin)) \<Longrightarrow>
   obj = JObj [(''type'', JStr ''error''), (''message'', JStr ''NeMo/Torch not installed'')] \<or>
   (\<exists>device. obj = ready_status device) \<or>
   (\<exists>e. obj = fatal_response e) \<or>
   (\<exists>j line. obj \<in> set (printed (handle_line env j line)))"
  by (cases "server_imports env"; cases "NemotronService env model_name";
      cases "stopped (server_loop env 0 stdin)")
     (auto simp add: run_server_def Let_def dest: server_loop_printed split: exn.splits)

text \<open>
  C6. Every object that the server prints has a \<^verbatim>\<open>type\<close> field, and its value is one of
  \<^verbatim>\<open>status\<close>, \<^verbatim>\<open>result\<close>, \<^verbatim>\<open>error\<close>, \<^verbatim>\<open>fatal\<close> and \<^verbatim>\<open>pong\<close>.
\<close>

theorem server_response_types:
  assumes "obj \<in> set (stdout (run_server env model_name stdin))"
  shows "response_type obj \<in>
           {Some ''status'', Some ''result'', Some ''error'', Some ''fatal'', Some ''pong''}"
proof -
  from run_server_printed [OF assms] consider
      "obj = JObj [(''type'', JStr ''error''), (''message'', JStr ''NeMo/Torch not installed'')]"
    | device where "obj = ready_status device"
    | e where "obj = fatal_response e"
    | j line where "obj \<in> set (printed (handle_line env j line))"
    by blast
  then show ?thesis
  proof cases
    case 1
    then show ?thesis by (simp add: response_type_def)
  next
    case 2
    then show ?thesis by (simp add: response_type_def ready_status_def)
  next
    case 3
    then show ?thesis by (simp add: response_type_def fatal_response_def)
  next
    case 4
    from handle_line_printed [OF 4] show ?thesis
      by (auto simp add: response_type_def file_not_found_def error_response_def)
  qed
qed

theorem server_response_types_witness:
  "JObj [(''type'', JStr ''pong'')]
     \<in> set (stdout (run_server example_env ''nemotron'' [Inr garbage_line, Inr ping_line])) \<and>
   response_type (JObj [(''type'', JStr ''pong'')]) \<in>
     {Some ''status'', Some ''result'', Some ''error'', Some ''fatal'', Some ''pong''}"
proof -
  have h: "JObj [(''type'', JStr ''pong'')]
     \<in> set (stdout (run_server example_env ''nemotron'' [Inr garbage_line, Inr ping_line]))"
    by (simp add: run_server_ready [OF example_service(2) example_service(1)] example_line
          Let_def)
  from h server_response_types [OF h] show ?thesis by blast
qed

subsection \<open>Silent lines and missing files\<close>

text \<open>
  C9, as stated, fails: a line that parses as JSON but is no object (an array, say) has no
  command field, yet \<^verbatim>\<open>req.get\<close> raises on it and the handler prints an error response.
\<close>

theorem no_command_silent_counterexample:
  "py_strip array_line \<noteq> [] \<and>
   json_loads example_env array_line = Inr (JArr []) \<and>
   printed (handle_line example_env 0 array_line) =
     [JObj [(''type'', JStr ''error''),
            (''message'', JStr (quoted ''list'' @ '' object has no attribute '' @ quoted ''get''))]]"
  by (simp add: example_nonblank example_loads example_line)

text \<open>
  C9, amended. A line that parses as a JSON object whose command field is absent or is
  none of \<^verbatim>\<open>transcribe\<close>, \<^verbatim>\<open>ping\<close> and \<^verbatim>\<open>exit\<close>, and likewise a blank or whitespace-only
  line, produces no response and no call of the model: the loop goes on with the next line.
\<close>

theorem unknown_command_silent:
  assumes "py_strip line = [] \<or>
           json_loads env line = Inr (JObj kvs) \<and>
           (map_of kvs ''command'' = None \<or>
            (\<exists>c. map_of kvs ''command'' = Some c \<and> c \<noteq> JStr ''transcribe'' \<and>
                 c \<noteq> JStr ''ping'' \<and> c \<noteq> JStr ''exit''))"
  shows "handle_line env i line = \<lparr>printed = [], invoked = [], ended = Next\<rparr> \<and>
         emitted (server_loop env i (Inr line # rest)) = emitted (server_loop env (Suc i) rest) \<and>
         transcribed (server_loop env i (Inr line # rest)) =
           transcribed (server_loop env (Suc i) rest) \<and>
         reads (server_loop env i (Inr line # rest)) = Suc (reads (server_loop env (Suc i) rest))"
proof -
  have l: "handle_line env i line = \<lparr>printed = [], invoked = [], ended = Next\<rparr>"
  proof (cases "py_strip line = []")
    case True
    then show ?thesis by (simp add: handle_line_blank)
  next
    case False
    with assms have "handle_request env i line = \<lparr>printed = [], invoked = [], ended = Next\<rparr>"
      by (auto simp add: handle_request_def)
    with False show ?thesis by (simp add: handle_line_passed)
  qed
  then show ?thesis by (simp add: Let_def)
qed

theorem unknown_command_silent_witness:
  "handle_line example_env 0 blank_line = \<lparr>printed = [], invoked = [], ended = Next\<rparr> \<and>
   handle_line example_env 0 empty_object_line = \<lparr>printed = [], invoked = [], ended = Next\<rparr> \<and>
   handle_line example_env 0 reload_line = \<lparr>printed = [], invoked = [], ended = Next\<rparr>"
proof -
  have a: "py_strip blank_line = [] \<or>
           json_loads example_env blank_line = Inr (JObj []) \<and>
           (map_of [] ''command'' = None \<or>
            (\<exists>c. map_of [] ''command'' = Some c \<and> c \<noteq> JStr ''transcribe'' \<and>
                 c \<noteq> JStr ''ping'' \<and> c \<noteq> JStr ''exit''))"
    by (simp add: example_blank)
  have b: "py_strip empty_object_line = [] \<or>
           json_loads example_env empty_object_line = Inr (JObj []) \<and>
           (map_of [] ''command'' = None \<or>
            (\<exists>c. map_of [] ''command'' = Some c \<and> c \<noteq> JStr ''transcribe'' \<and>
                 c \<noteq> JStr ''ping'' \<and> c \<noteq> JStr ''exit''))"
    by (simp add: example_loads)
  have c: "py_strip reload_line = [] \<or>
           json_loads example_env reload_line = Inr (JObj [(''command'', JStr ''reload'')]) \<and>
           (map_of [(''command'', JStr ''reload'')] ''command'' = None \<or>
            (\<exists>c. map_of [(''command'', JStr ''reload'')] ''command'' = Some c \<and>
                 c \<noteq> JStr ''transcribe'' \<and> c \<noteq> JStr ''ping'' \<and> c \<noteq> JStr ''exit''))"
    by (simp add: example_loads)
  from unknown_command_silent [OF a, of 0 "[]"] unknown_command_silent [OF b, of 0 "[]"]
    unknown_command_silent [OF c, of 0 "[]"]
  show ?thesis by blast
qed

text \<open>
  C2, as stated, fails where the file path is missing from the request: \<^verbatim>\<open>req.get\<close> yields
  \<^verbatim>\<open>None\<close>, \<^verbatim>\<open>os.path.exists(None)\<close> raises, and the response of the handler has no id,
  although the request has one.
\<close>

theorem missing_path_id_counterexample:
  "py_strip no_path_line \<noteq> [] \<and>
   json_loads example_env no_path_line =
     Inr (JObj [(''command'', JStr ''transcribe''), (''id'', JInt 7)]) \<and>
   printed (handle_line example_env 0 no_path_line) =
     [JObj [(''type'', JStr ''error''),
            (''message'', JStr
               ''stat: path should be string, bytes, os.PathLike or integer, not NoneType'')]] \<and>
   ''id'' \<notin> set (keys_of (hd (printed (handle_line example_env 0 no_path_line))))"
  by (simp add: example_nonblank example_loads example_line keys_of_def)

text \<open>
  C2, amended. For a transcribe request, the existence check comes before the call of the
  model. Where it answers \<^verbatim>\<open>False\<close> (the file path names no existing file), the server
  prints the \<^verbatim>\<open>File not found\<close> error response carrying the id of the request (\<^verbatim>\<open>null\<close>
  when it has none), does not call the model, and goes on with the next line. Where the
  check raises, as it does when the file path is absent or \<^verbatim>\<open>null\<close>, the server prints one
  error response that has a type and a message and no id, does not call the model, and
  goes on with the next line.
\<close>

theorem transcribe_file_not_found:
  assumes "py_strip line \<noteq> []"
    and "json_loads env line = Inr (JObj kvs)"
    and "map_of kvs ''command'' = Some (JStr ''transcribe'')"
  shows "(py_get (JObj kvs) ''file_path'' = Inr file_path \<and>
          py_get (JObj kvs) ''id'' = Inr req_id \<and>
          os_path_exists env i file_path = Inr False \<longrightarrow>
          handle_line env i line =
            \<lparr>printed = [JObj [(''type'', JStr ''error''), (''message'', JStr ''File not found''),
                               (''id'', req_id)]],
             invoked = [], ended = Next\<rparr>) \<and>
         (py_get (JObj kvs) ''file_path'' = Inr file_path \<and>
          os_path_exists env i file_path = Inl e \<longrightarrow>
          handle_line env i line =
            \<lparr>printed = [JObj [(''type'', JStr ''error''), (''message'', JStr (str_exn e))]],
             invoked = [], ended = Next\<rparr>) \<and>
         (map_of kvs ''file_path'' = None \<or> map_of kvs ''file_path'' = Some JNull \<longrightarrow>
          handle_line env i line =
            \<lparr>printed = [JObj [(''type'', JStr ''error''),
                               (''message'', JStr
               ''stat: path should be string, bytes, os.PathLike or integer, not NoneType'')]],
             invoked = [], ended = Next\<rparr>) \<and>
         (ended (handle_line env i line) = Next \<and> invoked (handle_line env i line) = [] \<longrightarrow>
          transcribed (server_loop env i (Inr line # rest)) =
            transcribed (server_loop env (Suc i) rest) \<and>
          reads (server_loop env i (Inr line # rest)) =
            Suc (reads (server_loop env (Suc i) rest)))"
proof -
  have found: "handle_line env i line =
      \<lparr>printed = [JObj [(''type'', JStr ''error''), (''message'', JStr ''File not found''),
                         (''id'', req_id)]],
       invoked = [], ended = Next\<rparr>"
    if "py_get (JObj kvs) ''file_path'' = Inr file_path \<and>
        py_get (JObj kvs) ''id'' = Inr req_id \<and> os_path_exists env i file_path = Inr False"
  proof -
    from that have "handle_transcribe env i (JObj kvs) =
        \<lparr>printed = [file_not_found req_id], invoked = [], ended = Next\<rparr>"
      by (simp add: handle_transcribe_def)
    with assms have "handle_request env i line =
        \<lparr>printed = [file_not_found req_id], invoked = [], ended = Next\<rparr>"
      by (simp add: handle_request_def)
    with assms(1) show ?thesis by (simp add: handle_line_passed file_not_found_def)
  qed
  have raised: "handle_line env i line =
      \<lparr>printed = [JObj [(''type'', JStr ''error''), (''message'', JStr (str_exn e'))]],
       invoked = [], ended = Next\<rparr>"
    if "py_get (JObj kvs) ''file_path'' = Inr fp \<and> os_path_exists env i fp = Inl e'"
    for fp e'
  proof -
    from that have "handle_transcribe env i (JObj kvs) =
        \<lparr>printed = [], invoked = [], ended = Raised e'\<rparr>"
      by (simp add: handle_transcribe_def)
    with assms have "handle_request env i line =
        \<lparr>printed = [], invoked = [], ended = Raised e'\<rparr>"
      by (simp add: handle_request_def)
    with assms(1) show ?thesis by (simp add: handle_line_raised error_response_def)
  qed
  have absent: "handle_line env i line =
      \<lparr>printed = [JObj [(''type'', JStr ''error''),
                         (''message'', JStr
               ''stat: path should be string, bytes, os.PathLike or integer, not NoneType'')]],
       invoked = [], ended = Next\<rparr>"
    if "map_of kvs ''file_path'' = None \<or> map_of kvs ''file_path'' = Some JNull"
  proof -
    from that have "py_get (JObj kvs) ''file_path'' = Inr JNull \<and>
        os_path_exists env i JNull = Inl (Exception
          ''stat: path should be string, bytes, os.PathLike or integer, not NoneType'')"
      by auto
    from raised [OF this] show ?thesis by simp
  qed
  have goes_on: "transcribed (server_loop env i (Inr line # rest)) =
            transcribed (server_loop env (Suc i) rest) \<and>
          reads (server_loop env i (Inr line # rest)) =
            Suc (reads (server_loop env (Suc i) rest))"
    if "ended (handle_line env i line) = Next \<and> invoked (handle_line env i line) = []"
    using that by (simp add: Let_def)
  from found raised [of file_path e] absent goes_on show ?thesis by blast
qed

theorem transcribe_file_not_found_witness:
  "handle_line example_env 0 gone_line =
     \<lparr>printed = [JObj [(''type'', JStr ''error''), (''message'', JStr ''File not found''),
                        (''id'', JInt 7)]],
      invoked = [], ended = Next\<rparr> \<and>
   handle_line example_env 0 no_path_line =
     \<lparr>printed = [JObj [(''type'', JStr ''error''),
                        (''message'', JStr
               ''stat: path should be string, bytes, os.PathLike or integer, not NoneType'')]],
      invoked = [], ended = Next\<rparr> \<and>
   reads (server_loop example_env 0 [Inr gone_line, Inr ping_line]) =
     Suc (reads (server_loop example_env 1 [Inr ping_line]))"
proof -
  have a: "py_strip gone_line \<noteq> []" and a': "py_strip no_path_line \<noteq> []"
    by (simp_all add: example_nonblank)
  have b: "json_loads example_env gone_line =
     Inr (JObj [(''command'', JStr ''transcribe''), (''file_path'', JStr ''gone.wav''),
                (''id'', JInt 7)])"
    and b': "json_loads example_env no_path_line =
     Inr (JObj [(''command'', JStr ''transcribe''), (''id'', JInt 7)])"
    by (simp_all add: example_loads)
  have c: "map_of [(''command'', JStr ''transcribe''), (''file_path'', JStr ''gone.wav''),
                   (''id'', JInt 7)] ''command'' = Some (JStr ''transcribe'')"
    and c': "map_of [(''command'', JStr ''transcribe''), (''id'', JInt 7)] ''command'' =
             Some (JStr ''transcribe'')"
    by simp_all
  have d: "py_get (JObj [(''command'', JStr ''transcribe''), (''file_path'', JStr ''gone.wav''),
                   (''id'', JInt 7)]) ''file_path'' = Inr (JStr ''gone.wav'') \<and>
           py_get (JObj [(''command'', JStr ''transcribe''), (''file_path'', JStr ''gone.wav''),
                   (''id'', JInt 7)]) ''id'' = Inr (JInt 7) \<and>
           os_path_exists example_env 0 (JStr ''gone.wav'') = Inr False"
    by (simp add: example_env_def)
  have d': "map_of [(''command'', JStr ''transcribe''), (''id'', JInt 7)] ''file_path'' = None"
    by simp
  note t = transcribe_file_not_found [OF a b c, where file_path = "JStr ''gone.wav''"
      and req_id = "JInt 7" and i = 0 and rest = "[Inr ping_line]"]
  note t' = transcribe_file_not_found [OF a' b' c', where i = 0 and rest = "[]"]
  from t d have l: "handle_line example_env 0 gone_line =
     \<lparr>printed = [JObj [(''type'', JStr ''error''), (''message'', JStr ''File not found''),
                        (''id'', JInt 7)]],
      invoked = [], ended = Next\<rparr>"
    by blast
  then have "ended (handle_line example_env 0 gone_line) = Next \<and>
             invoked (handle_line example_env 0 gone_line) = []"
    by simp
  with t have r: "reads (server_loop example_env 0 [Inr gone_line, Inr ping_line]) =
     Suc (reads (server_loop example_env (Suc 0) [Inr ping_line]))"
    by blast
  from t' d' have l': "handle_line example_env 0 no_path_line =
     \<lparr>printed = [JObj [(''type'', JStr ''error''),
                        (''message'', JStr
               ''stat: path should be string, bytes, os.PathLike or integer, not NoneType'')]],
      invoked = [], ended = Next\<rparr>"
    by blast
  from l l' r show ?thesis by (simp only: One_nat_def) 
qed

subsection \<open>Which error responses carry an id\<close>

lemma handle_transcribe_not_found:
  "file_not_found req_id \<in> set (printed (handle_transcribe env i req)) \<Longrightarrow>
   \<exists>file_path. py_get req ''file_path'' = Inr file_path \<and> py_get req ''id'' = Inr req_id \<and>
     os_path_exists env i file_path = Inr False"
  by (cases "py_get req ''file_path''"; cases "py_get req ''id''";
      cases "os_path_exists env i (projr (py_get req ''file_path''))";
      cases "transcribe env i (projr (py_get req ''file_path''))")
     (auto simp add: handle_transcribe_def file_not_found_def split: bool.splits)

lemma handle_request_not_found:
  "file_not_found req_id \<in> set (printed (handle_request env i line)) \<Longrightarrow>
   \<exists>req file_path. json_loads env line = Inr req \<and> py_get req ''file_path'' = Inr file_path \<and>
     py_get req ''id'' = Inr req_id \<and> os_path_exists env i file_path = Inr False"
  by (cases "json_loads env line"; cases "py_get (projr (json_loads env line)) ''command''")
     (auto simp add: handle_request_def file_not_found_def [of req_id]
           dest: handle_transcribe_not_found [unfolded file_not_found_def] split: if_splits)

lemma handle_line_not_found:
  assumes "file_not_found req_id \<in> set (printed (handle_line env i line))"
  shows "\<exists>req file_path. json_loads env line = Inr req \<and>
     py_get req ''file_path'' = Inr file_path \<and> py_get req ''id'' = Inr req_id \<and>
     os_path_exists env i file_path = Inr False"
proof (cases "py_strip line = []")
  case True
  with assms show ?thesis by (simp add: handle_line_def)
next
  case False
  show ?thesis
  proof (cases "ended (handle_request env i line)")
    case Next
    with False assms have "file_not_found req_id \<in> set (printed (handle_request env i line))"
      by (simp add: handle_line_passed)
    then show ?thesis by (rule handle_request_not_found)
  next
    case Break
    with False assms have "file_not_found req_id \<in> set (printed (handle_request env i line))"
      by (simp add: handle_line_passed)
    then show ?thesis by (rule handle_request_not_found)
  next
    case (Raised e)
    with False assms have "file_not_found req_id = error_response e"
      by (simp add: handle_line_raised)
    then show ?thesis by (simp add: file_not_found_def error_response_def)
  qed
qed

text \<open>
  C10. An error response printed by the handler of the loop body has exactly the fields
  \<^verbatim>\<open>type\<close> and \<^verbatim>\<open>message\<close>, so no id: that is the response to a line that is no JSON, to a
  transcription that raises, and to a transcribe request without a file path. Among all
  the error responses of the server, the only one with an id is the \<^verbatim>\<open>File not found\<close>
  response, and it is printed only where \<^verbatim>\<open>os.path.exists\<close> has answered \<^verbatim>\<open>False\<close>.
\<close>

theorem handler_errors_carry_no_id:
  "(py_strip line \<noteq> [] \<and> ended (handle_request env i line) = Raised e \<longrightarrow>
      printed (handle_line env i line) =
        [JObj [(''type'', JStr ''error''), (''message'', JStr (str_exn e))]]) \<and>
   (json_loads env line = Inl e \<longrightarrow> ended (handle_request env i line) = Raised e) \<and>
   (json_loads env line = Inr (JObj kvs) \<and>
    map_of kvs ''command'' = Some (JStr ''transcribe'') \<and>
    map_of kvs ''file_path'' = Some file_path \<and>
    os_path_exists env i file_path = Inr True \<and>
    model_transcribe env i file_path = Inl e \<longrightarrow>
      ended (handle_request env i line) = Raised e) \<and>
   (json_loads env line = Inr (JObj kvs) \<and>
    map_of kvs ''command'' = Some (JStr ''transcribe'') \<and>
    map_of kvs ''file_path'' = None \<longrightarrow>
      ended (handle_request env i line) =
        Raised (Exception
          ''stat: path should be string, bytes, os.PathLike or integer, not NoneType'')) \<and>
   (obj \<in> set (stdout (run_server env model_name stdin)) \<and>
    response_type obj = Some ''error'' \<longrightarrow>
      keys_of obj = [''type'', ''message''] \<or>
      (\<exists>req_id. obj = JObj [(''type'', JStr ''error''), (''message'', JStr ''File not found''),
                            (''id'', req_id)])) \<and>
   (JObj [(''type'', JStr ''error''), (''message'', JStr ''File not found''), (''id'', req_id)]
      \<in> set (printed (handle_line env i line)) \<longrightarrow>
      (\<exists>req file_path. json_loads env line = Inr req \<and>
         py_get req ''file_path'' = Inr file_path \<and> py_get req ''id'' = Inr req_id \<and>
         os_path_exists env i file_path = Inr False))"
proof -
  have caught: "printed (handle_line env i line) =
        [JObj [(''type'', JStr ''error''), (''message'', JStr (str_exn e))]]"
    if "py_strip line \<noteq> [] \<and> ended (handle_request env i line) = Raised e"
    using that by (simp add: handle_line_raised error_response_def)
  have malformed: "ended (handle_request env i line) = Raised e"
    if "json_loads env line = Inl e"
    using that by (simp add: handle_request_def)
  have failed: "ended (handle_request env i line) = Raised e"
    if "json_loads env line = Inr (JObj kvs) \<and>
        map_of kvs ''command'' = Some (JStr ''transcribe'') \<and>
        map_of kvs ''file_path'' = Some file_path \<and>
        os_path_exists env i file_path = Inr True \<and>
        model_transcribe env i file_path = Inl e"
    using that by (simp add: handle_request_def handle_transcribe_def transcribe_def)
  have no_path: "ended (handle_request env i line) =
        Raised (Exception
          ''stat: path should be string, bytes, os.PathLike or integer, not NoneType'')"
    if "json_loads env line = Inr (JObj kvs) \<and>
        map_of kvs ''command'' = Some (JStr ''transcribe'') \<and>
        map_of kvs ''file_path'' = None"
    using that by (simp add: handle_request_def handle_transcribe_def)
  have keys: "keys_of obj = [''type'', ''message''] \<or>
      (\<exists>req_id. obj = JObj [(''type'', JStr ''error''), (''message'', JStr ''File not found''),
                            (''id'', req_id)])"
    if m: "obj \<in> set (stdout (run_server env model_name stdin)) \<and>
        response_type obj = Some ''error''"
  proof -
    from m run_server_printed [of obj env model_name stdin] consider
        "obj = JObj [(''type'', JStr ''error''), (''message'', JStr ''NeMo/Torch not installed'')]"
      | device where "obj = ready_status device"
      | e where "obj = fatal_response e"
      | j line where "obj \<in> set (printed (handle_line env j line))"
      by blast
    then show ?thesis
    proof cases
      case 1
      then show ?thesis by (simp add: keys_of_def)
    next
      case 2
      with m show ?thesis by (simp add: response_type_def ready_status_def)
    next
      case 3
      with m show ?thesis by (simp add: response_type_def fatal_response_def)
    next
      case 4
      from handle_line_printed [OF 4] m show ?thesis
        by (auto simp add: response_type_def file_not_found_def error_response_def keys_of_def)
    qed
  qed
  have only: "\<exists>req file_path. json_loads env line = Inr req \<and>
         py_get req ''file_path'' = Inr file_path \<and> py_get req ''id'' = Inr req_id \<and>
         os_path_exists env i file_path = Inr False"
    if "JObj [(''type'', JStr ''error''), (''message'', JStr ''File not found''), (''id'', req_id)]
          \<in> set (printed (handle_line env i line))"
    using that handle_line_not_found [of req_id env i line] by (simp add: file_not_found_def)
  from caught malformed failed no_path keys only show ?thesis by blast
qed

theorem handler_errors_carry_no_id_witness:
  "printed (handle_line example_env 0 garbage_line) =
     [JObj [(''type'', JStr ''error''),
            (''message'', JStr ''Expecting value: line 1 column 1 (char 0)'')]] \<and>
   printed (handle_line example_env 0 noise_line) =
     [JObj [(''type'', JStr ''error''), (''message'', JStr ''decoder failed'')]] \<and>
   printed (handle_line example_env 0 no_path_line) =
     [JObj [(''type'', JStr ''error''),
            (''message'', JStr
               ''stat: path should be string, bytes, os.PathLike or integer, not NoneType'')]] \<and>
   os_path_exists example_env 0 (JStr ''gone.wav'') = Inr False"
proof -
  have nb: "py_strip garbage_line \<noteq> []" "py_strip noise_line \<noteq> []" "py_strip no_path_line \<noteq> []"
    by (simp_all add: example_nonblank)
  have g: "json_loads example_env garbage_line =
             Inl (Exception ''Expecting value: line 1 column 1 (char 0)'')"
    by (simp add: example_loads)
  have n: "json_loads example_env noise_line =
             Inr (JObj [(''command'', JStr ''transcribe''), (''file_path'', JStr ''noise.wav''),
                        (''id'', JInt 9)]) \<and>
           map_of [(''command'', JStr ''transcribe''), (''file_path'', JStr ''noise.wav''),
                   (''id'', JInt 9)] ''command'' = Some (JStr ''transcribe'') \<and>
           map_of [(''command'', JStr ''transcribe''), (''file_path'', JStr ''noise.wav''),
                   (''id'', JInt 9)] ''file_path'' = Some (JStr ''noise.wav'') \<and>
           os_path_exists example_env 0 (JStr ''noise.wav'') = Inr True \<and>
           model_transcribe example_env 0 (JStr ''noise.wav'') = Inl (Exception ''decoder failed'')"
    by (simp add: example_loads) (simp add: example_env_def)
  have p: "json_loads example_env no_path_line =
             Inr (JObj [(''command'', JStr ''transcribe''), (''id'', JInt 7)]) \<and>
           map_of [(''command'', JStr ''transcribe''), (''id'', JInt 7)] ''command'' =
             Some (JStr ''transcribe'') \<and>
           map_of [(''command'', JStr ''transcribe''), (''id'', JInt 7)] ''file_path'' = None"
    by (simp add: example_loads)
  have f: "JObj [(''type'', JStr ''error''), (''message'', JStr ''File not found''),
                 (''id'', JInt 7)] \<in> set (printed (handle_line example_env 0 gone_line))"
    by (simp add: example_line)
  note t1 = handler_errors_carry_no_id [of garbage_line example_env 0
      "Exception ''Expecting value: line 1 column 1 (char 0)''"]
  note t2 = handler_errors_carry_no_id [of noise_line example_env 0
      "Exception ''decoder failed''"
      "[(''command'', JStr ''transcribe''), (''file_path'', JStr ''noise.wav''), (''id'', JInt 9)]"
      "JStr ''noise.wav''"]
  note t3 = handler_errors_carry_no_id [of no_path_line example_env 0
      "Exception ''stat: path should be string, bytes, os.PathLike or integer, not NoneType''"
      "[(''command'', JStr ''transcribe''), (''id'', JInt 7)]"]
  note t4 = handler_errors_carry_no_id [of gone_line example_env 0 _ _ _ _ _ _ "JInt 7"]
  from t1 nb(1) g have a: "printed (handle_line example_env 0 garbage_line) =
     [JObj [(''type'', JStr ''error''),
            (''message'', JStr ''Expecting value: line 1 column 1 (char 0)'')]]"
    by simp
  from t2 nb(2) n have b: "printed (handle_line example_env 0 noise_line) =
     [JObj [(''type'', JStr ''error''), (''message'', JStr ''decoder failed'')]]"
    by simp
  from t3 nb(3) p have c: "printed (handle_line example_env 0 no_path_line) =
     [JObj [(''type'', JStr ''error''),
            (''message'', JStr
               ''stat: path should be string, bytes, os.PathLike or integer, not NoneType'')]]"
    by simp
  from t4 f have d: "\<exists>req file_path. json_loads example_env gone_line = Inr req \<and>
      py_get req ''file_path'' = Inr file_path \<and> py_get req ''id'' = Inr (JInt 7) \<and>
      os_path_exists example_env 0 file_path = Inr False"
    by blast
  from d have d': "os_path_exists example_env 0 (JStr ''gone.wav'') = Inr False"
    by (auto simp add: example_loads)
  from a b c d' show ?thesis by blast
qed

end
